theory Spec2Isabelle
  imports Main "HOL-Library.Word"
begin

unbundle bit_operations_syntax

section \<open>Activation-code servers: a shallow embedding\<close>

text \<open>
  The repository holds two Flask services over a JSON file of activation codes:
  \<^item> \<^verbatim>\<open>activation_server.py\<close>: one route \<^verbatim>\<open>/api/verify\<close> that activates a code on its
    first verification and reports an expiry date ("policy A");
  \<^item> \<^verbatim>\<open>cloud_server.py\<close>: a read-only \<^verbatim>\<open>/api/verify\<close> and a separate
    \<^verbatim>\<open>/api/activate\<close> that marks a code as used ("policy B").

  Modelling decisions, the same for both files:
  \<^item> strings are byte strings, and \<open>strip\<close> and \<open>upper\<close> are Python's on ASCII
    (activation codes are ASCII by construction); outside ASCII Python follows the
    Unicode database (more white space, more letters), which they do not describe:
    \<open>ascii\<close> says that a string is inside the model. What \<^verbatim>\<open>int\<close> reads outside ASCII
    (more white space, more decimal digits) is a parameter of the model;
  \<^item> \<^verbatim>\<open>hashlib.sha256\<close> and \<^verbatim>\<open>hmac.new(..., hashlib.sha256)\<close> are library primitives:
    they are parameters of the model (record \<open>env\<close>) that return the 256-bit digest;
    the hexadecimal rendering, the truncation and the upper-casing are modelled;
  \<^item> the wall clock is an argument: \<open>now k\<close> is what the \<open>k\<close>-th call of
    \<^verbatim>\<open>datetime.now()\<close> inside the modelled function returns (counting from 0);
  \<^item> the JSON file is a \<open>disk\<close>: its content (missing, unreadable or a database),
    whether the next write succeeds, and when it does not, whether it fails at
    \<^verbatim>\<open>open\<close> (the file stays as it is) or after \<^verbatim>\<open>open(..., 'w')\<close> has truncated
    the file (the file is left unreadable);
  \<^item> the fields of a stored record have the types the servers themselves write (a
    duration is a whole number of days, a flag is a Boolean); the request body is a
    JSON object whose \<^verbatim>\<open>code\<close> entry, when present, is a string;
  \<^item> Python exceptions are values of type \<open>error\<close>, messages of the replies are
    constructors of \<open>message\<close> (the source's texts are Chinese; each constructor
    names the source line of its text).
\<close>

subsection \<open>Python strings\<close>

definition isspace :: "char \<Rightarrow> bool" where
  \<comment> \<open>\<^verbatim>\<open>str.isspace\<close> on ASCII: TAB, LF, VT, FF, CR, FS, GS, RS, US and the blank\<close>
  "isspace c = (let n = (of_char c :: nat) in (9 \<le> n \<and> n \<le> 13) \<or> (28 \<le> n \<and> n \<le> 32))"

definition isdigit :: "char \<Rightarrow> bool" where
  "isdigit c = (let n = (of_char c :: nat) in 48 \<le> n \<and> n \<le> 57)"

definition ascii :: "string \<Rightarrow> bool" where
  \<comment> \<open>\<^verbatim>\<open>str.isascii()\<close>: the string is inside the model\<close>
  "ascii s = list_all (\<lambda>c. (of_char c :: nat) < 128) s"

definition upper_char :: "char \<Rightarrow> char" where
  \<comment> \<open>the ASCII letters a-z go to A-Z, every other character stays\<close>
  "upper_char c =
     (case map_of (zip ''abcdefghijklmnopqrstuvwxyz'' ''ABCDEFGHIJKLMNOPQRSTUVWXYZ'') c of
        Some u \<Rightarrow> u
      | None \<Rightarrow> c)"

definition upper :: "string \<Rightarrow> string" where
  \<comment> \<open>\<^verbatim>\<open>str.upper()\<close>\<close>
  "upper s = map upper_char s"

definition strip :: "string \<Rightarrow> string" where
  \<comment> \<open>\<^verbatim>\<open>str.strip()\<close>: white space is removed at both ends\<close>
  "strip s = rev (dropWhile isspace (rev (dropWhile isspace s)))"

fun split_on :: "char \<Rightarrow> string \<Rightarrow> string list" where
  \<comment> \<open>\<^verbatim>\<open>s.split(d)\<close> for a one-character delimiter: never an empty list\<close>
  "split_on d [] = [[]]"
| "split_on d (c # cs) =
     (if c = d then [] # split_on d cs
      else (case split_on d cs of [] \<Rightarrow> [[c]] | p # ps \<Rightarrow> (c # p) # ps))"

definition sign_data_of :: "string \<Rightarrow> string \<Rightarrow> string \<Rightarrow> string \<Rightarrow> string" where
  \<comment> \<open>the f-string \<^verbatim>\<open>f"{prefix}-{type_code}-{timestamp}-{salt}"\<close>\<close>
  "sign_data_of prefix type_code timestamp salt =
     prefix @ ''-'' @ type_code @ ''-'' @ timestamp @ ''-'' @ salt"

subsection \<open>Errors raised by the Python library\<close>

datatype error = ValueError | OverflowError | TypeError | KeyError | OSError

subsection \<open>Configuration and library primitives\<close>

record env =
  SECRET_KEY :: string
  hmac_sha256 :: "string \<Rightarrow> string \<Rightarrow> 256 word"
  sha256 :: "string \<Rightarrow> 256 word"
  int_max_str_digits :: nat
  int_unicode :: "string \<Rightarrow> int option"

text \<open>
  \<open>hmac_sha256 E key msg\<close> stands for
  \<^verbatim>\<open>hmac.new(key, msg, hashlib.sha256).digest()\<close> and \<open>sha256 E msg\<close> for
  \<^verbatim>\<open>hashlib.sha256(msg).digest()\<close>, each read as a big-endian 256-bit number;
  \<open>int_max_str_digits\<close> is \<^verbatim>\<open>sys.get_int_max_str_digits()\<close> (0: no limit);
  \<open>int_unicode E s\<close> stands for \<^verbatim>\<open>int(s)\<close> on a string with a character outside ASCII
  (\<open>None\<close>: a \<^verbatim>\<open>ValueError\<close>), which Python reads by the Unicode database.
\<close>

definition hex_digit :: "nat \<Rightarrow> char" where
  "hex_digit n = ''0123456789abcdef'' ! n"

definition hexdigest :: "256 word \<Rightarrow> string" where
  \<comment> \<open>\<^verbatim>\<open>.hexdigest()\<close>: 64 lower-case hexadecimal digits, the most significant first\<close>
  "hexdigest w = map (\<lambda>i. hex_digit (unat (drop_bit (4 * (63 - i)) w AND 15))) [0..<64]"

definition hash_code :: "env \<Rightarrow> string \<Rightarrow> string" where
  \<comment> \<open>\<^verbatim>\<open>hashlib.sha256(code.encode()).hexdigest()\<close>, the key of a record\<close>
  "hash_code E code = hexdigest (sha256 E code)"

definition generate_signature :: "env \<Rightarrow> string \<Rightarrow> string" where
  \<comment> \<open>\<^verbatim>\<open>generate_signature\<close> of activation_server.py, lines 165-171\<close>
  "generate_signature E data =
     upper (take 16 (hexdigest (hmac_sha256 E (SECRET_KEY E) data)))"

definition cloud_generate_signature :: "env \<Rightarrow> string \<Rightarrow> string" where
  \<comment> \<open>\<^verbatim>\<open>generate_signature\<close> of cloud_server.py, lines 52-58\<close>
  "cloud_generate_signature E data =
     upper (take 16 (hexdigest (hmac_sha256 E (SECRET_KEY E) data)))"

subsection \<open>Python's \<^verbatim>\<open>int(str)\<close>\<close>

text \<open>
  \<^verbatim>\<open>int(s)\<close> in base 10, as CPython's \<^verbatim>\<open>PyLong_FromString\<close> reads an ASCII string: white
  space (TAB, LF, VT, FF, CR, blank) on both sides, one optional sign, then decimal
  digits with single underscores between them; anything else, and more digits than
  the interpreter's limit allows (checked above 640 digits only), is a
  \<^verbatim>\<open>ValueError\<close>. On a string with a character outside ASCII Python first maps the
  white space and the decimal digits of every script to ASCII; that reading is the
  parameter \<open>int_unicode\<close>.
\<close>

definition int_space :: "char \<Rightarrow> bool" where
  "int_space c = (let n = (of_char c :: nat) in (9 \<le> n \<and> n \<le> 13) \<or> n = 32)"

definition int_body_char :: "char \<Rightarrow> bool" where
  "int_body_char c = (isdigit c \<or> c = CHR ''_'')"

fun double_underscore :: "string \<Rightarrow> bool" where
  "double_underscore (a # b # cs) =
     ((a = CHR ''_'' \<and> b = CHR ''_'') \<or> double_underscore (b # cs))"
| "double_underscore cs = False"

definition decimal :: "string \<Rightarrow> nat" where
  "decimal ds = foldl (\<lambda>a c. 10 * a + (of_char c - 48)) 0 ds"

definition py_int_ascii :: "nat \<Rightarrow> string \<Rightarrow> error + int" where
  \<comment> \<open>\<open>max_digits\<close> is the interpreter's digit limit\<close>
  "py_int_ascii max_digits s =
     (let s1 = dropWhile int_space s;
          negative = (take 1 s1 = ''-'');
          s2 = (if take 1 s1 = ''+'' \<or> take 1 s1 = ''-'' then drop 1 s1 else s1);
          body = takeWhile int_body_char s2;
          rest = dropWhile int_space (dropWhile int_body_char s2);
          digits = filter isdigit body
      in if body = [] \<or> take 1 body = ''_'' \<or> last body = CHR ''_'' \<or> double_underscore body
            \<or> rest \<noteq> []
            \<or> (0 < max_digits \<and> 640 < length digits \<and> max_digits < length digits)
         then Inl ValueError
         else Inr ((if negative then - 1 else 1) * int (decimal digits)))"

definition py_int :: "env \<Rightarrow> string \<Rightarrow> error + int" where
  "py_int E s =
     (if ascii s then py_int_ascii (int_max_str_digits E) s
      else (case int_unicode E s of None \<Rightarrow> Inl ValueError | Some n \<Rightarrow> Inr n))"

subsection \<open>Dates of activation_server.py\<close>

text \<open>
  A naive \<^verbatim>\<open>datetime\<close> is the number of microseconds since 0001-01-01T00:00:00; the
  type ends at 9999-12-31T23:59:59.999999. \<^verbatim>\<open>isoformat\<close> and \<^verbatim>\<open>fromisoformat\<close> are
  inverse on it, so the stored text is modelled by the number itself.
\<close>

definition datetime_max :: int where
  "datetime_max = 3652059 * 86400000000 - 1"

definition timedelta_days :: "int \<Rightarrow> error + int" where
  \<comment> \<open>\<^verbatim>\<open>timedelta(days=d)\<close> in microseconds; its magnitude is limited\<close>
  "timedelta_days d =
     (if 999999999 < \<bar>d\<bar> then Inl OverflowError else Inr (d * 86400000000))"

definition datetime_add :: "int \<Rightarrow> int \<Rightarrow> error + int" where
  \<comment> \<open>\<^verbatim>\<open>datetime + timedelta\<close>: \<^verbatim>\<open>OverflowError\<close> outside the years 1 to 9999\<close>
  "datetime_add t delta =
     (if 0 \<le> t + delta \<and> t + delta \<le> datetime_max then Inr (t + delta)
      else Inl OverflowError)"

subsection \<open>The JSON file\<close>

datatype 'd file_content = Missing | Unreadable | Content 'd

text \<open>
  Both servers write the file with \<^verbatim>\<open>open(DB_FILE, 'w')\<close> followed by \<^verbatim>\<open>json.dump\<close>.
  \<open>writable\<close>: the next write succeeds. \<open>opens\<close> matters when it does not: the
  write fails after \<^verbatim>\<open>open\<close> has truncated the file (\<open>opens\<close>, for example a full
  disk), which leaves a file that \<^verbatim>\<open>json.load\<close> refuses, or \<^verbatim>\<open>open\<close> itself is refused
  (not \<open>opens\<close>, for example a missing permission), which leaves the file as it is.
\<close>

record 'd disk =
  content :: "'d file_content"
  writable :: bool
  opens :: bool

definition failed_write :: "'d disk \<Rightarrow> 'd disk" where
  \<comment> \<open>the file after a write that failed\<close>
  "failed_write f = (if opens f then f\<lparr>content := Unreadable\<rparr> else f)"

subsection \<open>Messages of the replies\<close>

datatype message =
    MsgEmpty
      \<comment> \<open>"the activation code must not be empty": activation_server 233, cloud_server 70, 141\<close>
  | MsgFormat
      \<comment> \<open>"the activation code has a wrong format": activation_server 243, cloud_server 78\<close>
  | MsgSignature
      \<comment> \<open>"signature verification of the activation code failed": activation_server 256\<close>
  | MsgNotExist
      \<comment> \<open>"the activation code does not exist": activation_server 92\<close>
  | MsgExpired
      \<comment> \<open>"the activation code has expired": activation_server 104\<close>
  | MsgValid
      \<comment> \<open>"the activation code is valid": activation_server 110\<close>
  | MsgActivated string int
      \<comment> \<open>"activated! (type, valid for n days)": activation_server 127\<close>
  | MsgServerError error
      \<comment> \<open>"server error: ...": activation_server 275\<close>
  | MsgSignatureInvalid
      \<comment> \<open>"invalid activation code (signature verification failed)": cloud_server 90\<close>
  | MsgUsed "string option"
      \<comment> \<open>"the activation code has been used (time of use: ...)": cloud_server 102\<close>
  | MsgTypeError
      \<comment> \<open>"wrong type of activation code": cloud_server 115\<close>
  | MsgKind int
      \<comment> \<open>"permanent activation code" for 0 days, else "n-day trial activation code":
          cloud_server 122\<close>
  | MsgVerifyFailed error
      \<comment> \<open>"verification failed: ...": cloud_server 128\<close>
  | MsgMarked
      \<comment> \<open>"the activation code is marked as used": cloud_server 181\<close>
  | MsgMarkFailed error
      \<comment> \<open>"marking failed: ...": cloud_server 187\<close>

section \<open>activation_server.py\<close>

record code_info =
  code :: string
  type_name :: string
  duration_days :: int
  code_notes :: string
  generated_at :: int
  activated :: bool
  activated_at :: "int option"
  device_id :: "string option"

record log_entry =
  timestamp :: int
  action :: string
  log_code :: string
  log_result :: bool
  log_message :: message

record database =
  codes :: "string \<rightharpoonup> code_info"
  logs :: "log_entry list"

text \<open>
  An \<^verbatim>\<open>ActivationDatabase\<close> object: the dictionary \<^verbatim>\<open>self.db\<close> in memory and the file
  \<^verbatim>\<open>self.db_file\<close> it is written to.
\<close>

record server =
  db :: database
  db_file :: "database disk"

record verify_result =
  valid :: bool
  message :: message
  res_type :: "string option"
  res_activated_at :: "int option"
  expire_at :: "int option"

record reply =
  status :: nat
  body :: verify_result

definition save_database :: "server \<Rightarrow> server" where
  \<comment> \<open>\<^verbatim>\<open>ActivationDatabase.save_database\<close>, lines 61-69: an exception while writing is
      logged, nothing more\<close>
  "save_database s =
     (if writable (db_file s) then s\<lparr>db_file := (db_file s)\<lparr>content := Content (db s)\<rparr>\<rparr>
      else s\<lparr>db_file := failed_write (db_file s)\<rparr>)"

definition load_database :: "database disk \<Rightarrow> server" where
  \<comment> \<open>\<^verbatim>\<open>ActivationDatabase.__init__\<close> and \<^verbatim>\<open>load_database\<close>, lines 42-59; a file
      that cannot be read gives the empty database\<close>
  "load_database f =
     (case content f of
        Content d \<Rightarrow> \<lparr>db = d, db_file = f\<rparr>
      | Unreadable \<Rightarrow> \<lparr>db = \<lparr>codes = Map.empty, logs = []\<rparr>, db_file = f\<rparr>
      | Missing \<Rightarrow> save_database \<lparr>db = \<lparr>codes = Map.empty, logs = []\<rparr>, db_file = f\<rparr>)"

definition add_code :: "env \<Rightarrow> (nat \<Rightarrow> int) \<Rightarrow> server \<Rightarrow> string \<Rightarrow> string \<Rightarrow> int \<Rightarrow> string \<Rightarrow> server" where
  \<comment> \<open>\<^verbatim>\<open>ActivationDatabase.add_code\<close>, lines 71-85\<close>
  "add_code E now s c tn d n =
     save_database (s\<lparr>db := (db s)\<lparr>codes := (codes (db s))(hash_code E c \<mapsto>
        \<lparr>code = c, type_name = tn, duration_days = d, code_notes = n, generated_at = now 0,
         activated = False, activated_at = None, device_id = None\<rparr>)\<rparr>\<rparr>)"

definition verify_code :: "env \<Rightarrow> (nat \<Rightarrow> int) \<Rightarrow> server \<Rightarrow> string \<Rightarrow> server \<times> (error + verify_result)" where
  \<comment> \<open>\<^verbatim>\<open>ActivationDatabase.verify_code\<close>, lines 87-131; the state is returned also when
      an exception leaves the method\<close>
  "verify_code E now s c =
     (let code_hash = hash_code E c in
      case codes (db s) code_hash of
        None \<Rightarrow>
          (s, Inr \<lparr>valid = False, message = MsgNotExist, res_type = None,
                   res_activated_at = None, expire_at = None\<rparr>)
      | Some code_info \<Rightarrow>
          if activated code_info then
            (case activated_at code_info of
               None \<Rightarrow> (s, Inl TypeError)
             | Some at \<Rightarrow>
                 (case timedelta_days (duration_days code_info) of
                    Inl e \<Rightarrow> (s, Inl e)
                  | Inr delta \<Rightarrow>
                      (case datetime_add at delta of
                         Inl e \<Rightarrow> (s, Inl e)
                       | Inr expire \<Rightarrow>
                           if expire < now 0 then
                             (s, Inr \<lparr>valid = False, message = MsgExpired,
                                      res_type = Some (type_name code_info),
                                      res_activated_at = None, expire_at = None\<rparr>)
                           else
                             (s, Inr \<lparr>valid = True, message = MsgValid,
                                      res_type = Some (type_name code_info),
                                      res_activated_at = Some at, expire_at = Some expire\<rparr>))))
          else
            (let info' = code_info\<lparr>activated := True, activated_at := Some (now 0)\<rparr>;
                 s' = save_database
                        (s\<lparr>db := (db s)\<lparr>codes := (codes (db s))(code_hash \<mapsto> info')\<rparr>\<rparr>)
             in case timedelta_days (duration_days code_info) of
                  Inl e \<Rightarrow> (s', Inl e)
                | Inr delta \<Rightarrow>
                    (case datetime_add (now 1) delta of
                       Inl e \<Rightarrow> (s', Inl e)
                     | Inr expire \<Rightarrow>
                         (s', Inr \<lparr>valid = True,
                                   message = MsgActivated (type_name code_info)
                                               (duration_days code_info),
                                   res_type = Some (type_name code_info),
                                   res_activated_at = Some (now 0),
                                   expire_at = Some expire\<rparr>))))"

definition add_log :: "int \<Rightarrow> string \<Rightarrow> string \<Rightarrow> bool \<Rightarrow> message \<Rightarrow> server \<Rightarrow> server" where
  \<comment> \<open>\<^verbatim>\<open>ActivationDatabase.add_log\<close>, lines 148-158; \<open>t\<close> is the clock read for the entry\<close>
  "add_log t act c r m s =
     (let l = logs (db s) @ [\<lparr>timestamp = t, action = act, log_code = c, log_result = r,
                             log_message = m\<rparr>];
          l' = (if 1000 < length l then drop (length l - 1000) l else l)
      in save_database (s\<lparr>db := (db s)\<lparr>logs := l'\<rparr>\<rparr>))"

definition failure :: "message \<Rightarrow> verify_result" where
  \<comment> \<open>the dictionary \<^verbatim>\<open>{"valid": False, "message": m}\<close>\<close>
  "failure m = \<lparr>valid = False, message = m, res_type = None, res_activated_at = None,
                 expire_at = None\<rparr>"

definition verify_activation :: "env \<Rightarrow> (nat \<Rightarrow> int) \<Rightarrow> int \<Rightarrow> server \<Rightarrow> string \<Rightarrow> server \<times> reply" where
  \<comment> \<open>the route \<^verbatim>\<open>verify_activation\<close>, lines 223-276; \<open>data_code\<close> is
      \<^verbatim>\<open>data.get('code', '')\<close>, \<open>t_log\<close> the clock read by \<^verbatim>\<open>add_log\<close>\<close>
  "verify_activation E now t_log s data_code =
     (let c = upper (strip data_code) in
      if c = [] then (s, \<lparr>status = 400, body = failure MsgEmpty\<rparr>)
      else
        let parts = split_on CHR ''-'' c in
        if length parts \<noteq> 5 then (s, \<lparr>status = 200, body = failure MsgFormat\<rparr>)
        else
          let prefix = parts ! 0; type_code = parts ! 1; timestamp = parts ! 2;
              salt = parts ! 3; signature = parts ! 4;
              sign_data = sign_data_of prefix type_code timestamp salt;
              expected_signature = generate_signature E sign_data
          in if signature \<noteq> expected_signature then
               (s, \<lparr>status = 200, body = failure MsgSignature\<rparr>)
             else
               (case verify_code E now s c of
                  (s', Inl e) \<Rightarrow> (s', \<lparr>status = 500, body = failure (MsgServerError e)\<rparr>)
                | (s', Inr result) \<Rightarrow>
                    (add_log t_log ''verify'' (take 10 c @ ''...'') (valid result)
                       (message result) s',
                     \<lparr>status = 200, body = result\<rparr>)))"

section \<open>cloud_server.py\<close>

datatype code_type = Permanent | Trial | Unknown
  \<comment> \<open>the three texts of the "type" entry: lines 107, 110 and 160\<close>

record cloud_code_info =
  c_type :: code_type
  c_code :: string
  created_at :: string
  used :: bool
  used_at :: "string option"
  used_by :: "string option"
  days :: "int option"

record cloud_database =
  c_codes :: "string \<rightharpoonup> cloud_code_info"
  c_created_at :: "string option"
  version :: string

record verify_reply =
  v_status :: nat
  v_valid :: bool
  v_message :: message
  v_type :: "code_type option"
  v_days :: "int option"

record activate_reply =
  a_status :: nat
  success :: bool
  a_message :: message

definition cloud_load_database :: "cloud_database disk \<Rightarrow> cloud_database" where
  \<comment> \<open>\<^verbatim>\<open>load_database\<close> of cloud_server.py, lines 35-41: any exception while reading gives the empty database\<close>
  "cloud_load_database f =
     (case content f of
        Content d \<Rightarrow> d
      | Unreadable \<Rightarrow> \<lparr>c_codes = Map.empty, c_created_at = None, version = ''cloud_v1.0''\<rparr>
      | Missing \<Rightarrow> \<lparr>c_codes = Map.empty, c_created_at = None, version = ''cloud_v1.0''\<rparr>)"

definition cloud_save_database :: "cloud_database disk \<Rightarrow> cloud_database \<Rightarrow> cloud_database disk \<times> error option" where
  \<comment> \<open>\<^verbatim>\<open>save_database\<close> of cloud_server.py, lines 43-46: an exception while writing
      leaves the function, with the file as the failed write left it\<close>
  "cloud_save_database f d =
     (if writable f then (f\<lparr>content := Content d\<rparr>, None)
      else (failed_write f, Some OSError))"

definition verify_failure :: "nat \<Rightarrow> message \<Rightarrow> verify_reply" where
  \<comment> \<open>\<^verbatim>\<open>jsonify({"valid": False, "message": m}), st\<close>\<close>
  "verify_failure st m =
     \<lparr>v_status = st, v_valid = False, v_message = m, v_type = None, v_days = None\<rparr>"

definition cloud_verify_code :: "env \<Rightarrow> cloud_database disk \<Rightarrow> string \<Rightarrow> cloud_database disk \<times> verify_reply" where
  \<comment> \<open>the route \<^verbatim>\<open>verify_code\<close> of cloud_server.py, lines 60-129\<close>
  "cloud_verify_code E f data_code =
     (let c = upper (strip data_code) in
      if c = [] then (f, verify_failure 400 MsgEmpty)
      else
        let parts = split_on CHR ''-'' c in
        if length parts \<noteq> 5 then (f, verify_failure 400 MsgFormat)
        else
          let prefix = parts ! 0; type_code = parts ! 1; timestamp = parts ! 2;
              salt = parts ! 3; signature = parts ! 4;
              sign_data = sign_data_of prefix type_code timestamp salt;
              expected_signature = cloud_generate_signature E sign_data
          in if signature \<noteq> expected_signature then
               (f, verify_failure 400 MsgSignatureInvalid)
             else
               let d = cloud_load_database f;
                   info = c_codes d (hash_code E c)
               in if info \<noteq> None \<and> used (the info) then
                    (f, verify_failure 400 (MsgUsed (used_at (the info))))
                  else if type_code = ''P000'' then
                    (f, \<lparr>v_status = 200, v_valid = True, v_message = MsgKind 0,
                         v_type = Some Permanent, v_days = Some 0\<rparr>)
                  else if take 1 type_code = ''D'' then
                    (case py_int E (drop 1 type_code) of
                       Inl e \<Rightarrow> (f, verify_failure 500 (MsgVerifyFailed e))
                     | Inr n \<Rightarrow>
                         (f, \<lparr>v_status = 200, v_valid = True, v_message = MsgKind n,
                              v_type = Some Trial, v_days = Some n\<rparr>))
                  else (f, verify_failure 400 MsgTypeError))"

definition register_code :: "env \<Rightarrow> (nat \<Rightarrow> string) \<Rightarrow> cloud_database \<Rightarrow> string \<Rightarrow> error + cloud_database" where
  \<comment> \<open>lines 149-170 of \<^verbatim>\<open>activate_code\<close>: a code the database does not hold is added\<close>
  "register_code E now d c =
     (let parts = split_on CHR ''-'' c in
      if length parts = 5 then
        let type_code = parts ! 1 in
        case (if type_code = ''P000'' then Inr (Permanent, 0)
              else if take 1 type_code = ''D'' then
                (case py_int E (drop 1 type_code) of
                   Inl e \<Rightarrow> Inl e
                 | Inr n \<Rightarrow> Inr (Trial, n))
              else Inr (Unknown, 0)) of
          Inl e \<Rightarrow> Inl e
        | Inr (ct, n) \<Rightarrow>
            Inr (d\<lparr>c_codes := (c_codes d)(hash_code E c \<mapsto>
                   \<lparr>c_type = ct, c_code = c, created_at = now 0, used = False,
                    used_at = None, used_by = None,
                    days = (if 0 < n then Some n else None)\<rparr>)\<rparr>)
      else Inr d)"

definition activate_failure :: "nat \<Rightarrow> message \<Rightarrow> activate_reply" where
  "activate_failure st m = \<lparr>a_status = st, success = False, a_message = m\<rparr>"

definition activate_code :: "env \<Rightarrow> (nat \<Rightarrow> string) \<Rightarrow> string option \<Rightarrow> cloud_database disk \<Rightarrow> string \<Rightarrow> cloud_database disk \<times> activate_reply" where
  \<comment> \<open>the route \<^verbatim>\<open>activate_code\<close>, lines 131-188; \<open>now k\<close> is the \<open>k\<close>-th formatted clock reading, \<open>remote_addr\<close> is
      \<^verbatim>\<open>request.remote_addr\<close>\<close>
  "activate_code E now remote_addr f data_code =
     (let c = upper (strip data_code) in
      if c = [] then (f, activate_failure 400 MsgEmpty)
      else
        let d = cloud_load_database f;
            code_hash = hash_code E c;
            absent = (c_codes d code_hash = None)
        in case (if absent then register_code E now d c else Inr d) of
             Inl e \<Rightarrow> (f, activate_failure 500 (MsgMarkFailed e))
           | Inr d1 \<Rightarrow>
               (case c_codes d1 code_hash of
                  None \<Rightarrow> (f, activate_failure 500 (MsgMarkFailed KeyError))
                | Some info \<Rightarrow>
                    let t = (if absent then now 1 else now 0);
                        d2 = d1\<lparr>c_codes := (c_codes d1)(code_hash \<mapsto>
                               info\<lparr>used := True, used_at := Some t,
                                    used_by := remote_addr\<rparr>)\<rparr>
                    in (case cloud_save_database f d2 of
                          (f', Some e) \<Rightarrow> (f', activate_failure 500 (MsgMarkFailed e))
                        | (f', None) \<Rightarrow>
                            (f', \<lparr>a_status = 200, success = True,
                                  a_message = MsgMarked\<rparr>))))"

section \<open>Example data\<close>

text \<open>
  The concrete inputs of the examples below. The two library primitives are tables of
  the digests that Python's \<^verbatim>\<open>hmac\<close> and \<^verbatim>\<open>hashlib\<close> return for the secret \<open>K\<close> and
  the strings used, and 0 elsewhere.
\<close>

definition example_env :: env where
  "example_env =
     \<lparr>SECRET_KEY = ''K'',
      hmac_sha256 = (\<lambda>key msg.
        if key \<noteq> ''K'' then 0
        else case map_of
          [(''SIQIU-D007-250101-AB12'',
              0x4297c66985a06f81334bc937992e8a721689a83c8fed832d8d02e7ce862310b3),
           (''SIQIU-TRIAL-250101-AB12'',
              0xcd7e6ed6959ebc1a142fb1fe463e6035e166e90cc3dcb80b652863f80edd6dd8),
           (''SIQIU-D007-20250101-1A2B3C4D'',
              0x13f29b817f0696f735c69016e0572a2483fe6086db199e67ea76395dd35c16d4),
           (''SIQIU-X000-20250101-1A2B3C4D'',
              0x14e8a1232de3c3ec9ca7ee19d37741c5c4a1fa1c0ed1935703b26afc3b6a6e15),
           (''SIQIU-D+7-20250101-1A2B3C4D'',
              0xf9c5a185b16c9d574600eb72e3bd89b6bf08aa12d26235c29cce0388e21ed2bf)] msg of
          Some w \<Rightarrow> w | None \<Rightarrow> 0),
      sha256 = (\<lambda>msg.
        case map_of
          [(''SIQIU-TRIAL-250101-AB12-CD7E6ED6959EBC1A'',
              0xb651032f6a7315b3dcdf5e5891bf1ad7cf525bc4393c8bd375b4e3287398de7f),
           (''SIQIU-D007-20250101-1A2B3C4D-13F29B817F0696F7'',
              0x7bd978e94b6c320a754903779aa956809e68df03088eec483e61a1f221f3b719),
           (''SIQIU-X000-20250101-1A2B3C4D-14E8A1232DE3C3EC'',
              0x2a7ee29d04b73bef0e96ccd121cca7b76f9f302092934f0b89438c1a0b16482d),
           (''SIQIU-D+7-20250101-1A2B3C4D-F9C5A185B16C9D57'',
              0x23c886ba3d1d4fa9abb2f3f652ce9083835d400d4a0f1fc7fbc1ca527b9d08f5)] msg of
          Some w \<Rightarrow> w | None \<Rightarrow> 0),
      int_max_str_digits = 4300,
      int_unicode = (\<lambda>s. None)\<rparr>"

definition code_a :: string where
  \<comment> \<open>a code as \<^verbatim>\<open>generate_activation_code\<close> of activation_server.py builds it\<close>
  "code_a = ''SIQIU-TRIAL-250101-AB12-CD7E6ED6959EBC1A''"

definition t0 :: int where
  \<comment> \<open>2025-01-01T00:00:00\<close>
  "t0 = 63871286400000000"

definition clock_a :: "nat \<Rightarrow> int" where
  \<comment> \<open>a clock that advances by a quarter of a second between two readings\<close>
  "clock_a k = t0 + 250000 * int k"

definition record_a :: "int \<Rightarrow> code_info" where
  \<comment> \<open>what \<open>add_code\<close> stores for \<open>code_a\<close> with a duration of \<open>d\<close> days\<close>
  "record_a d =
     \<lparr>code = code_a, type_name = ''trial'', duration_days = d, code_notes = [],
      generated_at = t0, activated = False, activated_at = None, device_id = None\<rparr>"

definition server_a :: "int \<Rightarrow> bool \<Rightarrow> server" where
  \<comment> \<open>a server that holds \<open>record_a d\<close> in memory and on disk; \<open>w\<close>: the file is
      writable, and else \<^verbatim>\<open>open\<close> is refused\<close>
  "server_a d w =
     \<lparr>db = \<lparr>codes = [hash_code example_env code_a \<mapsto> record_a d], logs = []\<rparr>,
      db_file = \<lparr>content = Content
                   \<lparr>codes = [hash_code example_env code_a \<mapsto> record_a d], logs = []\<rparr>,
                 writable = w, opens = w\<rparr>\<rparr>"

definition server_used :: "int \<Rightarrow> server" where
  \<comment> \<open>the same server after the code was consumed at \<open>t0\<close>\<close>
  "server_used d =
     \<lparr>db = \<lparr>codes = [hash_code example_env code_a \<mapsto>
                   (record_a d)\<lparr>activated := True, activated_at := Some t0\<rparr>], logs = []\<rparr>,
      db_file = \<lparr>content = Content
                   \<lparr>codes = [hash_code example_env code_a \<mapsto>
                      (record_a d)\<lparr>activated := True, activated_at := Some t0\<rparr>], logs = []\<rparr>,
                 writable = True, opens = True\<rparr>\<rparr>"

definition code_b :: string where
  \<comment> \<open>a 7-day code as \<^verbatim>\<open>admin_generate\<close> of cloud_server.py builds it\<close>
  "code_b = ''SIQIU-D007-20250101-1A2B3C4D-13F29B817F0696F7''"

definition code_x :: string where
  \<comment> \<open>a correctly signed code with the edition token \<open>X000\<close>\<close>
  "code_x = ''SIQIU-X000-20250101-1A2B3C4D-14E8A1232DE3C3EC''"

definition code_plus :: string where
  \<comment> \<open>a correctly signed code with the edition token \<open>D+7\<close>\<close>
  "code_plus = ''SIQIU-D+7-20250101-1A2B3C4D-F9C5A185B16C9D57''"

definition empty_cloud_db :: cloud_database where
  \<comment> \<open>the database \<^verbatim>\<open>init_database\<close> writes\<close>
  "empty_cloud_db =
     \<lparr>c_codes = Map.empty, c_created_at = Some ''2025-01-01T00:00:00'',
      version = ''cloud_v1.0''\<rparr>"

definition disk_b :: "cloud_database file_content \<Rightarrow> bool \<Rightarrow> cloud_database disk" where
  \<comment> \<open>a file of cloud_server.py; \<open>w\<close>: the file is writable, and else \<^verbatim>\<open>open\<close> is refused\<close>
  "disk_b c w = \<lparr>content = c, writable = w, opens = w\<rparr>"

definition full_disk_b :: "cloud_database file_content \<Rightarrow> cloud_database disk" where
  \<comment> \<open>a file on a full disk: \<^verbatim>\<open>open\<close> truncates it, the write after it fails\<close>
  "full_disk_b c = \<lparr>content = c, writable = False, opens = True\<rparr>"

definition clock_b :: "nat \<Rightarrow> string" where
  "clock_b k = (if k = 0 then ''2025-01-02 10:00:00'' else ''2025-01-02 10:00:01'')"

definition clock_b' :: "nat \<Rightarrow> string" where
  "clock_b' k = (if k = 0 then ''2025-03-04 18:30:00'' else ''2025-03-04 18:30:01'')"

definition record_b_used :: cloud_code_info where
  \<comment> \<open>the record of \<open>code_b\<close> after a first activation from 10.0.0.1\<close>
  "record_b_used =
     \<lparr>c_type = Trial, c_code = code_b, created_at = ''2025-01-02 10:00:00'', used = True,
      used_at = Some ''2025-01-02 10:00:01'', used_by = Some ''10.0.0.1'',
      days = Some 7\<rparr>"

section \<open>The signature\<close>

lemma length_hexdigest: "length (hexdigest w) = 64"
  by (simp add: hexdigest_def)

lemma upper_hex_digit_table:
  "\<forall>n \<in> set [0..<16]. upper_char (hex_digit n) = ''0123456789ABCDEF'' ! n"
  by code_simp

lemma upper_hex_digit: "n < 16 \<Longrightarrow> upper_char (hex_digit n) = ''0123456789ABCDEF'' ! n"
  using upper_hex_digit_table by simp

lemma nibble_less: "unat ((w :: 256 word) AND 15) < 16"
proof -
  have "unat (w AND 15) \<le> unat (15 :: 256 word)"
    by (rule word_and_le1 [THEN word_le_nat_alt [THEN iffD1]])
  then show ?thesis by simp
qed

lemma upper_take_hexdigest:
  "upper (take 16 (hexdigest w)) =
     map (\<lambda>i. ''0123456789ABCDEF'' ! unat (drop_bit (4 * (63 - i)) w AND 15)) [0..<16]"
  by (simp add: upper_def hexdigest_def take_map upper_hex_digit nibble_less)

text \<open>
  C7. The signature of a message is the first 16 hexadecimal digits, in upper case, of
  the HMAC-SHA256 of the message under the secret: digit \<open>i\<close> is the upper-case
  hexadecimal digit of the \<open>i\<close>-th most significant nibble of the MAC. It is a function
  of the secret and the message alone, it has 16 characters whatever the length of the
  message, both servers compute the same signature, and for the secret \<open>K\<close> and the
  message \<open>SIQIU-D007-250101-AB12\<close> it is the upper-cased 16-digit prefix of that MAC.
\<close>

theorem generate_signature_is_hmac_prefix:
  "generate_signature E data = upper (take 16 (hexdigest (hmac_sha256 E (SECRET_KEY E) data)))
   \<and> generate_signature E data =
       map (\<lambda>i. ''0123456789ABCDEF'' !
              unat (drop_bit (4 * (63 - i)) (hmac_sha256 E (SECRET_KEY E) data) AND 15))
         [0..<16]
   \<and> length (generate_signature E data) = 16
   \<and> cloud_generate_signature E data = generate_signature E data
   \<and> generate_signature (E\<lparr>SECRET_KEY := ''K''\<rparr>) ''SIQIU-D007-250101-AB12'' =
       upper (take 16 (hexdigest (hmac_sha256 E ''K'' ''SIQIU-D007-250101-AB12'')))"
proof -
  have shape: "generate_signature E data =
      upper (take 16 (hexdigest (hmac_sha256 E (SECRET_KEY E) data)))"
    by (simp add: generate_signature_def)
  have digits: "generate_signature E data =
      map (\<lambda>i. ''0123456789ABCDEF'' !
             unat (drop_bit (4 * (63 - i)) (hmac_sha256 E (SECRET_KEY E) data) AND 15))
        [0..<16]"
    unfolding shape by (rule upper_take_hexdigest)
  have len: "length (generate_signature E data) = 16"
    unfolding digits by simp
  have same: "cloud_generate_signature E data = generate_signature E data"
    by (simp add: cloud_generate_signature_def generate_signature_def)
  have example: "generate_signature (E\<lparr>SECRET_KEY := ''K''\<rparr>) ''SIQIU-D007-250101-AB12'' =
      upper (take 16 (hexdigest (hmac_sha256 E ''K'' ''SIQIU-D007-250101-AB12'')))"
    by (simp add: generate_signature_def)
  from shape digits len same example show ?thesis by blast
qed

text \<open>With Python's MAC for the secret \<open>K\<close>, the signature of the example message.\<close>

lemma generate_signature_example:
  "generate_signature example_env ''SIQIU-D007-250101-AB12'' = ''4297C66985A06F81''"
  by code_simp

section \<open>Fields of a code\<close>

text \<open>A code of five fields is not empty.\<close>

lemma five_fields_nonempty:
  "split_on CHR ''-'' c = [p, ty, ts, sa, sg] \<Longrightarrow> c \<noteq> []"
  by auto

section \<open>Example values\<close>

text \<open>The codes of the examples are in normal form, and their fields and signatures.\<close>

lemma normal_codes:
  "upper (strip code_b) = code_b" "upper (strip code_x) = code_x"
  "upper (strip code_plus) = code_plus" "upper (strip code_a) = code_a"
  by code_simp+

lemma fields_code_a:
  "split_on CHR ''-'' code_a = [''SIQIU'', ''TRIAL'', ''250101'', ''AB12'', ''CD7E6ED6959EBC1A'']"
  by code_simp

lemma fields_code_b:
  "split_on CHR ''-'' code_b = [''SIQIU'', ''D007'', ''20250101'', ''1A2B3C4D'', ''13F29B817F0696F7'']"
  by code_simp

lemma fields_code_x:
  "split_on CHR ''-'' code_x = [''SIQIU'', ''X000'', ''20250101'', ''1A2B3C4D'', ''14E8A1232DE3C3EC'']"
  by code_simp

lemma fields_code_plus:
  "split_on CHR ''-'' code_plus = [''SIQIU'', ''D+7'', ''20250101'', ''1A2B3C4D'', ''F9C5A185B16C9D57'']"
  by code_simp

lemma signatures:
  "cloud_generate_signature example_env (sign_data_of ''SIQIU'' ''D007'' ''20250101'' ''1A2B3C4D'') = ''13F29B817F0696F7''"
  "cloud_generate_signature example_env (sign_data_of ''SIQIU'' ''X000'' ''20250101'' ''1A2B3C4D'') = ''14E8A1232DE3C3EC''"
  "cloud_generate_signature example_env (sign_data_of ''SIQIU'' ''D+7'' ''20250101'' ''1A2B3C4D'') = ''F9C5A185B16C9D57''"
  "generate_signature example_env (sign_data_of ''SIQIU'' ''TRIAL'' ''250101'' ''AB12'') = ''CD7E6ED6959EBC1A''"
  by code_simp+

lemma py_int_examples:
  "py_int example_env ''007'' = Inr 7" "py_int example_env ''+7'' = Inr 7"
  by code_simp+

lemma ascii_codes: "ascii code_a" "ascii code_b" "ascii code_x" "ascii code_plus"
  by code_simp+

lemma code_b_nonempty: "code_b \<noteq> []"
  by (simp add: code_b_def)

lemma absent_in_empty:
  "c_codes (cloud_load_database (disk_b (Content empty_cloud_db) w)) h = None"
  by (simp add: cloud_load_database_def disk_b_def empty_cloud_db_def)

lemma malformed_example:
  "upper (strip ''  siqiu-d007 '') = ''SIQIU-D007''"
  "length (split_on CHR ''-'' ''SIQIU-D007'') = 2"
  "upper (strip ''   '') = []"
  "length (split_on CHR ''-'' []) = 1"
  by code_simp+

text \<open>
  The example server of activation_server.py is what the constructor and \<open>add_code\<close>
  build from a missing file.
\<close>

lemma server_a_reachable:
  "add_code example_env (\<lambda>k. t0) (load_database \<lparr>content = Missing, writable = True, opens = True\<rparr>)
     code_a ''trial'' d [] = server_a d True"
  by (simp add: add_code_def load_database_def save_database_def server_a_def record_a_def)

section \<open>Facts about \<open>py_int\<close>\<close>

lemma if_Inl_Inr: "(if C then Inl a else Inr b) = Inl e \<Longrightarrow> e = a"
  by (cases C) simp_all

lemma py_int_ascii_error: "py_int_ascii m s = Inl e \<Longrightarrow> e = ValueError"
  unfolding py_int_ascii_def Let_def by (rule if_Inl_Inr)

lemma py_int_error: "py_int E s = Inl e \<Longrightarrow> e = ValueError"
  by (cases "ascii s") (auto simp add: py_int_def dest: py_int_ascii_error split: option.splits)

lemma digits_ascii: "list_all isdigit ds \<Longrightarrow> ascii ds"
  by (induction ds) (auto simp add: ascii_def isdigit_def Let_def)

lemma digit_not_space: "isdigit c \<Longrightarrow> \<not> int_space c"
  by (auto simp add: isdigit_def int_space_def Let_def)

lemma digit_not_sign: "isdigit c \<Longrightarrow> c \<noteq> CHR ''+'' \<and> c \<noteq> CHR ''-'' \<and> c \<noteq> CHR ''_''"
  by (auto simp add: isdigit_def)

lemma digits_no_double_underscore: "list_all isdigit ds \<Longrightarrow> \<not> double_underscore ds"
  by (induction ds rule: double_underscore.induct) (auto dest: digit_not_sign)

text \<open>
  A non-empty string of decimal digits, within the interpreter's digit limit, is read
  as its decimal value.
\<close>

lemma py_int_digits:
  assumes nonempty: "ds \<noteq> []" and digits: "list_all isdigit ds"
    and limit: "int_max_str_digits E = 0 \<or> length ds \<le> 640
      \<or> length ds \<le> int_max_str_digits E"
  shows "py_int E ds = Inr (int (decimal ds))"
proof -
  obtain d rest where shape: "ds = d # rest"
    using nonempty by (cases ds) auto
  have first: "isdigit d" using digits shape by simp
  have all_body: "\<forall>c \<in> set ds. int_body_char c"
    using digits by (simp add: list_all_iff int_body_char_def)
  have s1: "dropWhile int_space ds = ds"
    using first by (simp add: shape digit_not_space)
  have unsigned: "take 1 ds \<noteq> ''+''" "take 1 ds \<noteq> ''-''" "take 1 ds \<noteq> ''_''"
    using first by (auto simp add: shape dest: digit_not_sign)
  have body: "takeWhile int_body_char ds = ds"
    using all_body by (simp add: takeWhile_eq_all_conv)
  have rest: "dropWhile int_body_char ds = []"
    using all_body by simp
  have filtered: "filter isdigit ds = ds"
    using digits by (simp add: list_all_iff)
  have last_digit: "last ds \<noteq> CHR ''_''"
  proof -
    have "last ds \<in> set ds" using nonempty by simp
    with digits have "isdigit (last ds)" by (simp add: list_all_iff)
    then show ?thesis by (simp add: digit_not_sign)
  qed
  show ?thesis
    using limit nonempty unsigned last_digit digits_no_double_underscore [OF digits]
    by (auto simp add: py_int_def py_int_ascii_def digits_ascii [OF digits] s1 body rest
        filtered)
qed

text \<open>For example \<open>007\<close> is read as 7.\<close>

theorem py_int_digits_witness:
  "''007'' \<noteq> [] \<and> list_all isdigit ''007'' \<and> length ''007'' \<le> 640
   \<and> py_int example_env ''007'' = Inr 7"
proof -
  have digits: "list_all isdigit ''007''"
    by (simp add: isdigit_def)
  have seven: "int (decimal ''007'') = 7"
    by (simp add: decimal_def)
  from py_int_digits [of "''007''" example_env] digits seven
  show ?thesis by simp
qed

section \<open>activation_server.py: verification that activates\<close>

text \<open>
  The two branches of \<open>verify_code\<close> for a record that is present: the first
  verification consumes the code, later ones only read it.
\<close>

lemma verify_code_unconsumed:
  assumes "codes (db s) (hash_code E c) = Some info" and "\<not> activated info"
  shows "verify_code E now s c =
    (save_database (s\<lparr>db := (db s)\<lparr>codes := (codes (db s))(hash_code E c \<mapsto>
        info\<lparr>activated := True, activated_at := Some (now 0)\<rparr>)\<rparr>\<rparr>),
     case timedelta_days (duration_days info) of
       Inl e \<Rightarrow> Inl e
     | Inr delta \<Rightarrow>
         (case datetime_add (now 1) delta of
            Inl e \<Rightarrow> Inl e
          | Inr expire \<Rightarrow>
              Inr \<lparr>valid = True,
                   message = MsgActivated (type_name info) (duration_days info),
                   res_type = Some (type_name info), res_activated_at = Some (now 0),
                   expire_at = Some expire\<rparr>))"
  using assms by (simp add: verify_code_def Let_def split: sum.splits)

lemma verify_code_consumed:
  assumes "codes (db s) (hash_code E c) = Some info" and "activated info"
    and "activated_at info = Some t"
  shows "verify_code E now s c =
    (s, case timedelta_days (duration_days info) of
          Inl e \<Rightarrow> Inl e
        | Inr delta \<Rightarrow>
            (case datetime_add t delta of
               Inl e \<Rightarrow> Inl e
             | Inr expire \<Rightarrow>
                 Inr (if expire < now 0 then
                        \<lparr>valid = False, message = MsgExpired,
                         res_type = Some (type_name info), res_activated_at = None,
                         expire_at = None\<rparr>
                      else
                        \<lparr>valid = True, message = MsgValid,
                         res_type = Some (type_name info), res_activated_at = Some t,
                         expire_at = Some expire\<rparr>)))"
  using assms by (simp add: verify_code_def Let_def split: sum.splits)

lemma save_database_db: "db (save_database s) = db s"
  by (simp add: save_database_def)

lemma save_database_file:
  "db_file (save_database s) =
     (if writable (db_file s) then (db_file s)\<lparr>content := Content (db s)\<rparr>
      else failed_write (db_file s))"
  by (simp add: save_database_def)

lemma add_log_db:
  "db (add_log t a c r m s) =
     (db s)\<lparr>logs := (let l = logs (db s) @ [\<lparr>timestamp = t, action = a, log_code = c,
                log_result = r, log_message = m\<rparr>]
              in if 1000 < length l then drop (length l - 1000) l else l)\<rparr>"
  by (simp add: add_log_def Let_def save_database_def)

lemma verify_activation_signed:
  assumes norm: "upper (strip data_code) = c"
    and fields: "split_on CHR ''-'' c = [p, tc, ts, sa, sg]"
    and signed: "sg = generate_signature E (sign_data_of p tc ts sa)"
  shows "verify_activation E now t_log s data_code =
    (case verify_code E now s c of
       (s', Inl e) \<Rightarrow> (s', \<lparr>status = 500, body = failure (MsgServerError e)\<rparr>)
     | (s', Inr result) \<Rightarrow>
         (add_log t_log ''verify'' (take 10 c @ ''...'') (valid result) (message result) s',
          \<lparr>status = 200, body = result\<rparr>))"
proof -
  have "c \<noteq> []" using fields by (rule five_fields_nonempty)
  then show ?thesis
    using signed by (simp add: verify_activation_def Let_def norm fields)
qed

subsection \<open>First consumption\<close>

text \<open>
  C1 (as amended). For every code whose record is present with the consumption flag
  false, whose duration has a magnitude of at most 999999999 days and whose expiry date
  lies in the range of Python's \<^verbatim>\<open>datetime\<close>: \<open>verify_code\<close> returns valid=true with the
  consumption time \<open>now 0\<close>, the first clock reading of the call; in memory the record
  is marked consumed at \<open>now 0\<close>; the file receives the new database when the write
  succeeds; and when the clock shows the same instant at both readings of the call,
  the expiry in the reply is the consumption time plus the duration in days.
\<close>

theorem first_verify_consumes:
  assumes present: "codes (db s) (hash_code E c) = Some info"
    and fresh: "\<not> activated info"
    and days_ok: "\<bar>duration_days info\<bar> \<le> 999999999"
    and lower: "0 \<le> now 1 + duration_days info * 86400000000"
    and upper: "now 1 + duration_days info * 86400000000 \<le> datetime_max"
  shows "(case snd (verify_code E now s c) of
            Inl e \<Rightarrow> False
          | Inr r \<Rightarrow>
              valid r
              \<and> message r = MsgActivated (type_name info) (duration_days info)
              \<and> res_type r = Some (type_name info)
              \<and> res_activated_at r = Some (now 0)
              \<and> (now 1 = now 0 \<longrightarrow>
                   expire_at r = Some (now 0 + duration_days info * 86400000000)))
       \<and> db (fst (verify_code E now s c)) =
           (db s)\<lparr>codes := (codes (db s))(hash_code E c \<mapsto>
              info\<lparr>activated := True, activated_at := Some (now 0)\<rparr>)\<rparr>
       \<and> (writable (db_file s) \<longrightarrow>
            db_file (fst (verify_code E now s c)) =
              (db_file s)\<lparr>content := Content (db (fst (verify_code E now s c)))\<rparr>)"
proof -
  have delta: "timedelta_days (duration_days info) = Inr (duration_days info * 86400000000)"
    using days_ok by (simp add: timedelta_days_def)
  have expire: "datetime_add (now 1) (duration_days info * 86400000000) =
      Inr (now 1 + duration_days info * 86400000000)"
    using lower upper by (simp add: datetime_add_def)
  have run: "verify_code E now s c =
    (save_database (s\<lparr>db := (db s)\<lparr>codes := (codes (db s))(hash_code E c \<mapsto>
        info\<lparr>activated := True, activated_at := Some (now 0)\<rparr>)\<rparr>\<rparr>),
     Inr \<lparr>valid = True,
          message = MsgActivated (type_name info) (duration_days info),
          res_type = Some (type_name info), res_activated_at = Some (now 0),
          expire_at = Some (now 1 + duration_days info * 86400000000)\<rparr>)"
    using delta expire by (simp add: verify_code_unconsumed [OF present fresh])
  show ?thesis
    by (simp add: run save_database_db save_database_file)
qed

text \<open>
  The hypotheses of C1 hold for the 7-day record of \<open>code_a\<close> on a writable file and a
  clock that stands at \<open>t0\<close>: the reply is valid, with the expiry seven days after
  \<open>t0\<close>, and the file holds the consumed record.
\<close>

theorem first_verify_consumes_witness:
  "codes (db (server_a 7 True)) (hash_code example_env code_a) = Some (record_a 7)
   \<and> \<not> activated (record_a 7)
   \<and> writable (db_file (server_a 7 True))
   \<and> (case snd (verify_code example_env (\<lambda>k. t0) (server_a 7 True) code_a) of
         Inl e \<Rightarrow> False
       | Inr r \<Rightarrow>
           valid r \<and> res_activated_at r = Some t0
           \<and> expire_at r = Some (t0 + 7 * 86400000000))
   \<and> content (db_file (fst (verify_code example_env (\<lambda>k. t0) (server_a 7 True) code_a))) =
       Content \<lparr>codes = [hash_code example_env code_a \<mapsto>
                  (record_a 7)\<lparr>activated := True, activated_at := Some t0\<rparr>], logs = []\<rparr>"
proof -
  have present:
    "codes (db (server_a 7 True)) (hash_code example_env code_a) = Some (record_a 7)"
    by (simp add: server_a_def)
  have fresh: "\<not> activated (record_a 7)"
    by (simp add: record_a_def)
  have days_ok: "\<bar>duration_days (record_a 7)\<bar> \<le> 999999999"
    by (simp add: record_a_def)
  have lower: "0 \<le> (\<lambda>k::nat. t0) 1 + duration_days (record_a 7) * 86400000000"
    by (simp add: record_a_def t0_def)
  have upper: "(\<lambda>k::nat. t0) 1 + duration_days (record_a 7) * 86400000000 \<le> datetime_max"
    by (simp add: record_a_def t0_def datetime_max_def)
  have week: "duration_days (record_a 7) = 7"
    by (simp add: record_a_def)
  have disk: "writable (db_file (server_a 7 True))" "db (server_a 7 True) =
      \<lparr>codes = [hash_code example_env code_a \<mapsto> record_a 7], logs = []\<rparr>"
    by (simp_all add: server_a_def)
  from first_verify_consumes
    [where now = "\<lambda>k. t0" and s = "server_a 7 True" and E = example_env and c = code_a
      and info = "record_a 7", OF present fresh days_ok lower upper]
    present fresh
  show ?thesis
    by (simp add: week disk split: sum.splits)
qed

text \<open>
  C1 as stated fails. With a file that cannot be opened for writing, the first verification of an
  unconsumed 7-day record answers valid=true although the file still holds the
  unconsumed record (and the expiry in the reply, taken from a second, later clock
  reading, is not the consumption time plus seven days). With a duration of 4000000
  days the verification of an unconsumed record raises \<^verbatim>\<open>OverflowError\<close> instead of
  answering valid=true.
\<close>

theorem first_verify_counterexample:
  "codes (db (server_a 7 False)) (hash_code example_env code_a) = Some (record_a 7)
   \<and> \<not> activated (record_a 7)
   \<and> snd (verify_code example_env clock_a (server_a 7 False) code_a) =
       Inr \<lparr>valid = True, message = MsgActivated ''trial'' 7, res_type = Some ''trial'',
            res_activated_at = Some t0, expire_at = Some (t0 + 250000 + 604800000000)\<rparr>
   \<and> db_file (fst (verify_code example_env clock_a (server_a 7 False) code_a)) =
       db_file (server_a 7 False)
   \<and> content (db_file (server_a 7 False)) =
       Content \<lparr>codes = [hash_code example_env code_a \<mapsto> record_a 7], logs = []\<rparr>
   \<and> codes (db (server_a 4000000 True)) (hash_code example_env code_a) =
       Some (record_a 4000000)
   \<and> \<not> activated (record_a 4000000)
   \<and> snd (verify_code example_env clock_a (server_a 4000000 True) code_a) =
       Inl OverflowError"
  by (simp add: verify_code_unconsumed [of _ _ _ "record_a d" for d] server_a_def record_a_def
      save_database_def failed_write_def timedelta_days_def datetime_add_def datetime_max_def
      clock_a_def t0_def)

subsection \<open>A duration of zero days\<close>

text \<open>
  C3 (as amended). For every consumed record with \<open>duration_days = 0\<close> and consumption
  time \<open>t\<close>: a verification at a clock reading after \<open>t\<close> returns valid=false with the
  message "expired"; a verification at a clock reading not after \<open>t\<close> returns
  valid=true with the finite expiry \<open>t\<close>. The server is left as it was. The duration 0
  is no "never expires" sentinel in activation_server.py.
\<close>

theorem zero_duration_expires:
  assumes present: "codes (db s) (hash_code E c) = Some info"
    and consumed: "activated info" "activated_at info = Some t"
    and zero: "duration_days info = 0"
    and date: "0 \<le> t" "t \<le> datetime_max"
  shows "verify_code E now s c =
    (s, Inr (if t < now 0 then
               \<lparr>valid = False, message = MsgExpired, res_type = Some (type_name info),
                res_activated_at = None, expire_at = None\<rparr>
             else
               \<lparr>valid = True, message = MsgValid, res_type = Some (type_name info),
                res_activated_at = Some t, expire_at = Some t\<rparr>))"
proof -
  have delta: "timedelta_days (duration_days info) = Inr 0"
    using zero by (simp add: timedelta_days_def)
  have expire: "datetime_add t 0 = Inr t"
    using date by (simp add: datetime_add_def)
  show ?thesis
    by (simp add: verify_code_consumed [OF present consumed] delta expire)
qed

text \<open>
  The hypotheses of C3 hold for the record of \<open>code_a\<close> with duration 0 consumed at
  \<open>t0\<close>: one day later the code is expired; at \<open>t0\<close> itself it is valid until \<open>t0\<close>.
\<close>

theorem zero_duration_expires_witness:
  "codes (db (server_used 0)) (hash_code example_env code_a) =
     Some ((record_a 0)\<lparr>activated := True, activated_at := Some t0\<rparr>)
   \<and> verify_code example_env (\<lambda>k. t0 + 86400000000) (server_used 0) code_a =
       (server_used 0,
        Inr \<lparr>valid = False, message = MsgExpired, res_type = Some ''trial'',
             res_activated_at = None, expire_at = None\<rparr>)
   \<and> verify_code example_env (\<lambda>k. t0) (server_used 0) code_a =
       (server_used 0,
        Inr \<lparr>valid = True, message = MsgValid, res_type = Some ''trial'',
             res_activated_at = Some t0, expire_at = Some t0\<rparr>)"
  using zero_duration_expires [of "server_used 0" example_env code_a
      "(record_a 0)\<lparr>activated := True, activated_at := Some t0\<rparr>" t0 "\<lambda>k. t0 + 86400000000"]
    zero_duration_expires [of "server_used 0" example_env code_a
      "(record_a 0)\<lparr>activated := True, activated_at := Some t0\<rparr>" t0 "\<lambda>k. t0"]
  by (simp add: server_used_def record_a_def t0_def datetime_max_def)

text \<open>
  C3 as stated fails: a record with duration 0 consumed at \<open>t0\<close> is reported expired
  one microsecond later.
\<close>

theorem zero_duration_counterexample:
  "codes (db (server_used 0)) (hash_code example_env code_a) =
     Some ((record_a 0)\<lparr>activated := True, activated_at := Some t0\<rparr>)
   \<and> duration_days (record_a 0) = 0
   \<and> verify_code example_env (\<lambda>k. t0 + 1) (server_used 0) code_a =
       (server_used 0,
        Inr \<lparr>valid = False, message = MsgExpired, res_type = Some ''trial'',
             res_activated_at = None, expire_at = None\<rparr>)"
  by (simp add: verify_code_def Let_def server_used_def record_a_def
      timedelta_days_def datetime_add_def datetime_max_def t0_def)

subsection \<open>Repeated verification\<close>

text \<open>
  Inside the validity window every verification of a consumed record returns the
  stored consumption time plus the duration, and leaves the server as it was.
\<close>

lemma reverify_same_expiry:
  assumes present: "codes (db s) (hash_code E c) = Some info"
    and consumed: "activated info" "activated_at info = Some t"
    and days_ok: "\<bar>duration_days info\<bar> \<le> 999999999"
    and lower: "0 \<le> t + duration_days info * 86400000000"
    and upper: "t + duration_days info * 86400000000 \<le> datetime_max"
    and window: "now 0 \<le> t + duration_days info * 86400000000"
  shows "verify_code E now s c =
    (s, Inr \<lparr>valid = True, message = MsgValid, res_type = Some (type_name info),
             res_activated_at = Some t,
             expire_at = Some (t + duration_days info * 86400000000)\<rparr>)"
proof -
  have delta: "timedelta_days (duration_days info) = Inr (duration_days info * 86400000000)"
    using days_ok by (simp add: timedelta_days_def)
  have expire: "datetime_add t (duration_days info * 86400000000) =
      Inr (t + duration_days info * 86400000000)"
    using lower upper by (simp add: datetime_add_def)
  show ?thesis
    using window by (simp add: verify_code_consumed [OF present consumed] delta expire)
qed

text \<open>For example, three days after the 7-day record of \<open>code_a\<close> was consumed.\<close>

theorem reverify_same_expiry_witness:
  "codes (db (server_used 7)) (hash_code example_env code_a) =
     Some ((record_a 7)\<lparr>activated := True, activated_at := Some t0\<rparr>)
   \<and> t0 + 3 * 86400000000 \<le> t0 + 7 * 86400000000
   \<and> verify_code example_env (\<lambda>k. t0 + 3 * 86400000000) (server_used 7) code_a =
       (server_used 7,
        Inr \<lparr>valid = True, message = MsgValid, res_type = Some ''trial'',
             res_activated_at = Some t0, expire_at = Some (t0 + 604800000000)\<rparr>)"
  using reverify_same_expiry [of "server_used 7" example_env code_a
      "(record_a 7)\<lparr>activated := True, activated_at := Some t0\<rparr>" t0
      "\<lambda>k. t0 + 3 * 86400000000"]
  by (simp add: server_used_def record_a_def t0_def datetime_max_def)

lemma first_verify_state:
  "fst (verify_code example_env clock_a (server_a 7 True) code_a) = server_used 7"
  by (simp add: verify_code_unconsumed [of _ _ _ "record_a 7"] server_a_def server_used_def
      record_a_def save_database_def clock_a_def)

text \<open>
  C4 (the code departs from the claim). The first verification stamps the record with
  the first clock reading and computes the expiry it reports from a second reading;
  later verifications compute the expiry from the stamp. With a clock that advances by
  a quarter of a second between the two readings, the consumption reports an expiry a
  quarter of a second later than the expiry that every later verification reports.
\<close>

theorem reverify_reports_earlier_expiry:
  "snd (verify_code example_env clock_a (server_a 7 True) code_a) =
     Inr \<lparr>valid = True, message = MsgActivated ''trial'' 7, res_type = Some ''trial'',
          res_activated_at = Some t0, expire_at = Some (t0 + 250000 + 604800000000)\<rparr>
   \<and> fst (verify_code example_env clock_a (server_a 7 True) code_a) = server_used 7
   \<and> verify_code example_env (\<lambda>k. t0 + 86400000000) (server_used 7) code_a =
       (server_used 7,
        Inr \<lparr>valid = True, message = MsgValid, res_type = Some ''trial'',
             res_activated_at = Some t0, expire_at = Some (t0 + 604800000000)\<rparr>)
   \<and> t0 + 250000 + 604800000000 \<noteq> t0 + 604800000000"
proof -
  have first: "snd (verify_code example_env clock_a (server_a 7 True) code_a) =
     Inr \<lparr>valid = True, message = MsgActivated ''trial'' 7, res_type = Some ''trial'',
          res_activated_at = Some t0, expire_at = Some (t0 + 250000 + 604800000000)\<rparr>"
    by (simp add: verify_code_unconsumed [of _ _ _ "record_a 7"] server_a_def record_a_def
        timedelta_days_def datetime_add_def datetime_max_def clock_a_def t0_def)
  have again: "verify_code example_env (\<lambda>k. t0 + 86400000000) (server_used 7) code_a =
       (server_used 7,
        Inr \<lparr>valid = True, message = MsgValid, res_type = Some ''trial'',
             res_activated_at = Some t0, expire_at = Some (t0 + 604800000000)\<rparr>)"
    by (simp add: verify_code_def Let_def server_used_def record_a_def
        timedelta_days_def datetime_add_def datetime_max_def t0_def)
  from first first_verify_state again show ?thesis by simp
qed

section \<open>cloud_server.py: read-only verification and activation\<close>

text \<open>
  The route \<open>cloud_verify_code\<close> on a code of five fields with a correct signature, and
  \<open>activate_code\<close> on a code that the database holds or does not hold.
\<close>

lemma cloud_verify_code_signed:
  assumes norm: "upper (strip data_code) = c"
    and fields: "split_on CHR ''-'' c = [p, tc, ts, sa, sg]"
    and signed: "sg =
      cloud_generate_signature E (sign_data_of p tc ts sa)"
  shows "cloud_verify_code E f data_code =
    (f, case c_codes (cloud_load_database f) (hash_code E c) of
          Some info \<Rightarrow>
            if used info then verify_failure 400 (MsgUsed (used_at info))
            else if tc = ''P000'' then
              \<lparr>v_status = 200, v_valid = True, v_message = MsgKind 0,
               v_type = Some Permanent, v_days = Some 0\<rparr>
            else if take 1 tc = ''D'' then
              (case py_int E (drop 1 tc) of
                 Inl e \<Rightarrow> verify_failure 500 (MsgVerifyFailed e)
               | Inr n \<Rightarrow>
                   \<lparr>v_status = 200, v_valid = True, v_message = MsgKind n,
                    v_type = Some Trial, v_days = Some n\<rparr>)
            else verify_failure 400 MsgTypeError
        | None \<Rightarrow>
            if tc = ''P000'' then
              \<lparr>v_status = 200, v_valid = True, v_message = MsgKind 0,
               v_type = Some Permanent, v_days = Some 0\<rparr>
            else if take 1 tc = ''D'' then
              (case py_int E (drop 1 tc) of
                 Inl e \<Rightarrow> verify_failure 500 (MsgVerifyFailed e)
               | Inr n \<Rightarrow>
                   \<lparr>v_status = 200, v_valid = True, v_message = MsgKind n,
                    v_type = Some Trial, v_days = Some n\<rparr>)
            else verify_failure 400 MsgTypeError)"
proof -
  have "c \<noteq> []" using fields by (rule five_fields_nonempty)
  then show ?thesis
    using signed
    by (simp add: cloud_verify_code_def Let_def norm fields
        split: option.splits sum.splits)
qed

lemma activate_code_present:
  assumes norm: "upper (strip data_code) = c" and "c \<noteq> []"
    and present: "c_codes (cloud_load_database f) (hash_code E c) = Some info"
  shows "activate_code E now addr f data_code =
    (if writable f then
       (f\<lparr>content := Content ((cloud_load_database f)\<lparr>c_codes :=
            (c_codes (cloud_load_database f))(hash_code E c \<mapsto>
              info\<lparr>used := True, used_at := Some (now 0), used_by := addr\<rparr>)\<rparr>)\<rparr>,
        \<lparr>a_status = 200, success = True, a_message = MsgMarked\<rparr>)
     else (failed_write f, activate_failure 500 (MsgMarkFailed OSError)))"
  using assms
  by (simp add: activate_code_def Let_def cloud_save_database_def)

lemma register_code_known:
  assumes fields: "split_on CHR ''-'' c = [p, tc, ts, sa, sg]"
    and edition: "tc = ''P000'' \<and> ct = Permanent \<and> n = 0
        \<or> tc \<noteq> ''P000'' \<and> take 1 tc = ''D'' \<and> py_int E (drop 1 tc) = Inr n \<and> ct = Trial"
  shows "register_code E now d c =
    Inr (d\<lparr>c_codes := (c_codes d)(hash_code E c \<mapsto>
           \<lparr>c_type = ct, c_code = c, created_at = now 0, used = False, used_at = None,
            used_by = None, days = (if 0 < n then Some n else None)\<rparr>)\<rparr>)"
  using edition by (auto simp add: register_code_def Let_def fields)

lemma activate_code_absent:
  assumes norm: "upper (strip data_code) = c"
    and fields: "split_on CHR ''-'' c = [p, tc, ts, sa, sg]"
    and edition: "tc = ''P000'' \<and> ct = Permanent \<and> n = 0
        \<or> tc \<noteq> ''P000'' \<and> take 1 tc = ''D'' \<and> py_int E (drop 1 tc) = Inr n \<and> ct = Trial"
    and absent: "c_codes (cloud_load_database f) (hash_code E c) = None"
  shows "activate_code E now addr f data_code =
    (if writable f then
       (f\<lparr>content := Content ((cloud_load_database f)\<lparr>c_codes :=
            (c_codes (cloud_load_database f))(hash_code E c \<mapsto>
              \<lparr>c_type = ct, c_code = c, created_at = now 0, used = True,
               used_at = Some (now 1), used_by = addr,
               days = (if 0 < n then Some n else None)\<rparr>)\<rparr>)\<rparr>,
        \<lparr>a_status = 200, success = True, a_message = MsgMarked\<rparr>)
     else (failed_write f, activate_failure 500 (MsgMarkFailed OSError)))"
proof -
  have "c \<noteq> []" using fields by (rule five_fields_nonempty)
  then show ?thesis
    using absent
    by (simp add: activate_code_def Let_def norm cloud_save_database_def
        register_code_known [OF fields edition])
qed

text \<open>
  The used record of the examples is what a first activation of \<open>code_b\<close> from
  10.0.0.1 writes into an empty store.
\<close>

lemma record_b_used_reachable:
  "activate_code example_env clock_b (Some ''10.0.0.1'')
     (disk_b (Content empty_cloud_db) True) code_b =
   (disk_b (Content (empty_cloud_db\<lparr>c_codes :=
        [hash_code example_env code_b \<mapsto> record_b_used]\<rparr>)) True,
    \<lparr>a_status = 200, success = True, a_message = MsgMarked\<rparr>)"
proof -
  have number: "py_int example_env (drop 1 ''D007'') = Inr 7"
    by (simp add: py_int_examples)
  have edition: "''D007'' = ''P000'' \<and> Trial = Permanent \<and> (7::int) = 0
      \<or> ''D007'' \<noteq> ''P000'' \<and> take 1 ''D007'' = ''D''
        \<and> py_int example_env (drop 1 ''D007'') = Inr 7 \<and> Trial = Trial"
    using number by simp
  show ?thesis
    unfolding activate_code_absent [OF normal_codes(1) fields_code_b edition absent_in_empty]
    by (simp add: disk_b_def cloud_load_database_def empty_cloud_db_def record_b_used_def
        clock_b_def)
qed

subsection \<open>Codes the database does not hold\<close>




subsection \<open>Repeated activation\<close>

text \<open>
  C6 (as amended). For every code whose record is already consumed, and when the file
  can be written: a further \<open>activate_code\<close> succeeds (status 200) and writes the
  record with \<open>used_at\<close> replaced by the time of this call and \<open>used_by\<close> replaced by
  the address of this caller; the type, the code, the creation time and the days of
  the record, and every other record, stay as they were.
\<close>

theorem repeated_activation_overwrites:
  assumes norm: "upper (strip data_code) = c" and nonempty: "c \<noteq> []"
    and present: "c_codes (cloud_load_database f) (hash_code E c) = Some info"
    and consumed: "used info"
    and disk: "writable f"
  shows "activate_code E now addr f data_code =
    (f\<lparr>content := Content ((cloud_load_database f)\<lparr>c_codes :=
         (c_codes (cloud_load_database f))(hash_code E c \<mapsto>
           info\<lparr>used_at := Some (now 0), used_by := addr\<rparr>)\<rparr>)\<rparr>,
     \<lparr>a_status = 200, success = True, a_message = MsgMarked\<rparr>)"
proof -
  have same: "info\<lparr>used := True, used_at := Some (now 0), used_by := addr\<rparr> =
      info\<lparr>used_at := Some (now 0), used_by := addr\<rparr>"
    using consumed by simp
  show ?thesis
    using disk by (simp add: activate_code_present [OF norm nonempty present] same)
qed

text \<open>
  The hypotheses of C6 hold for \<open>code_b\<close>, used on 2025-01-02 from 10.0.0.1 and
  activated again on 2025-03-04 from 10.0.0.2.
\<close>

theorem repeated_activation_overwrites_witness:
  "upper (strip code_b) = code_b \<and> code_b \<noteq> []
   \<and> c_codes (cloud_load_database
        (disk_b (Content (empty_cloud_db\<lparr>c_codes :=
           [hash_code example_env code_b \<mapsto> record_b_used]\<rparr>)) True))
        (hash_code example_env code_b) = Some record_b_used
   \<and> used record_b_used
   \<and> activate_code example_env clock_b' (Some ''10.0.0.2'')
        (disk_b (Content (empty_cloud_db\<lparr>c_codes :=
           [hash_code example_env code_b \<mapsto> record_b_used]\<rparr>)) True) code_b =
       (disk_b (Content (empty_cloud_db\<lparr>c_codes :=
           [hash_code example_env code_b \<mapsto>
              record_b_used\<lparr>used_at := Some ''2025-03-04 18:30:00'',
                            used_by := Some ''10.0.0.2''\<rparr>]\<rparr>)) True,
        \<lparr>a_status = 200, success = True, a_message = MsgMarked\<rparr>)"
proof -
  let ?f = "disk_b (Content (empty_cloud_db\<lparr>c_codes :=
           [hash_code example_env code_b \<mapsto> record_b_used]\<rparr>)) True"
  have present: "c_codes (cloud_load_database ?f) (hash_code example_env code_b) =
      Some record_b_used"
    by (simp add: cloud_load_database_def disk_b_def)
  have consumed: "used record_b_used"
    by (simp add: record_b_used_def)
  have disk: "writable ?f"
    by (simp add: disk_b_def)
  from repeated_activation_overwrites
    [OF normal_codes(1) code_b_nonempty present consumed disk,
      of clock_b' "Some ''10.0.0.2''"]
    normal_codes(1) code_b_nonempty present consumed
  show ?thesis
    by (simp add: cloud_load_database_def disk_b_def clock_b'_def)
qed

text \<open>
  C6 as stated fails: after the second activation the record of \<open>code_b\<close> carries the
  second time of use and the second address, not the first ones. And with a file that
  cannot be written the second activation fails with status 500.
\<close>

theorem repeated_activation_counterexample:
  "used record_b_used
   \<and> used_at record_b_used = Some ''2025-01-02 10:00:01''
   \<and> used_by record_b_used = Some ''10.0.0.1''
   \<and> snd (activate_code example_env clock_b' (Some ''10.0.0.2'')
        (disk_b (Content (empty_cloud_db\<lparr>c_codes :=
           [hash_code example_env code_b \<mapsto> record_b_used]\<rparr>)) True) code_b) =
       \<lparr>a_status = 200, success = True, a_message = MsgMarked\<rparr>
   \<and> content (fst (activate_code example_env clock_b' (Some ''10.0.0.2'')
        (disk_b (Content (empty_cloud_db\<lparr>c_codes :=
           [hash_code example_env code_b \<mapsto> record_b_used]\<rparr>)) True) code_b)) =
       Content (empty_cloud_db\<lparr>c_codes :=
           [hash_code example_env code_b \<mapsto>
              \<lparr>c_type = Trial, c_code = code_b, created_at = ''2025-01-02 10:00:00'',
               used = True, used_at = Some ''2025-03-04 18:30:00'',
               used_by = Some ''10.0.0.2'', days = Some 7\<rparr>]\<rparr>)
   \<and> snd (activate_code example_env clock_b' (Some ''10.0.0.2'')
        (disk_b (Content (empty_cloud_db\<lparr>c_codes :=
           [hash_code example_env code_b \<mapsto> record_b_used]\<rparr>)) False) code_b) =
       activate_failure 500 (MsgMarkFailed OSError)"
  by (simp add: activate_code_present [OF normal_codes(1) code_b_nonempty,
        of _ _ record_b_used]
      cloud_load_database_def disk_b_def clock_b'_def record_b_used_def)

subsection \<open>Edition tokens\<close>

text \<open>
  C10 (as amended). For every ASCII input whose code has five fields and a correct
  signature and whose edition token is neither \<open>P000\<close> nor a \<open>D\<close> followed by text
  that Python's \<^verbatim>\<open>int\<close> accepts, \<open>cloud_verify_code\<close> never returns valid=true and leaves
  the store as it was: the reply is "already used" (400) for a used record, else
  "verification failed" with a \<^verbatim>\<open>ValueError\<close> (500) for a token that starts with \<open>D\<close>,
  else "wrong type of activation code" (400). (On an input with characters outside ASCII
  Python's \<^verbatim>\<open>strip\<close>, \<^verbatim>\<open>upper\<close> and \<^verbatim>\<open>int\<close> follow the Unicode database: a token such
  as \<open>D\<close>, a no-break space and \<open>7\<close> is read as 7 days.)
\<close>

theorem unknown_edition_never_valid:
  assumes inside: "ascii data_code"
    and norm: "upper (strip data_code) = c"
    and fields: "split_on CHR ''-'' c = [p, tc, ts, sa, sg]"
    and signed: "sg = cloud_generate_signature E (sign_data_of p tc ts sa)"
    and not_permanent: "tc \<noteq> ''P000''"
    and not_trial: "\<not> (take 1 tc = ''D'' \<and> (\<exists>n. py_int E (drop 1 tc) = Inr n))"
  shows "cloud_verify_code E f data_code =
    (f, case c_codes (cloud_load_database f) (hash_code E c) of
          Some info \<Rightarrow>
            if used info then verify_failure 400 (MsgUsed (used_at info))
            else if take 1 tc = ''D'' then verify_failure 500 (MsgVerifyFailed ValueError)
            else verify_failure 400 MsgTypeError
        | None \<Rightarrow>
            if take 1 tc = ''D'' then verify_failure 500 (MsgVerifyFailed ValueError)
            else verify_failure 400 MsgTypeError)
    \<and> \<not> v_valid (snd (cloud_verify_code E f data_code))"
proof -
  have failed: "py_int E (drop 1 tc) = Inl ValueError" if "take 1 tc = ''D''"
  proof (cases "py_int E (drop 1 tc)")
    case (Inl e)
    then show ?thesis using py_int_error by blast
  next
    case (Inr n)
    with that not_trial show ?thesis by blast
  qed
  have run: "cloud_verify_code E f data_code =
    (f, case c_codes (cloud_load_database f) (hash_code E c) of
          Some info \<Rightarrow>
            if used info then verify_failure 400 (MsgUsed (used_at info))
            else if take 1 tc = ''D'' then verify_failure 500 (MsgVerifyFailed ValueError)
            else verify_failure 400 MsgTypeError
        | None \<Rightarrow>
            if take 1 tc = ''D'' then verify_failure 500 (MsgVerifyFailed ValueError)
            else verify_failure 400 MsgTypeError)"
    using not_permanent failed
    by (simp add: cloud_verify_code_signed [OF norm fields signed] split: option.splits)
  show ?thesis
    by (simp add: run verify_failure_def split: option.splits)
qed

text \<open>The hypotheses of C10 hold for \<open>code_x\<close>, whose token is \<open>X000\<close>.\<close>

theorem unknown_edition_never_valid_witness:
  "ascii code_x
   \<and> upper (strip code_x) = code_x
   \<and> split_on CHR ''-'' code_x =
       [''SIQIU'', ''X000'', ''20250101'', ''1A2B3C4D'', ''14E8A1232DE3C3EC'']
   \<and> ''14E8A1232DE3C3EC'' = cloud_generate_signature example_env
         (sign_data_of ''SIQIU'' ''X000'' ''20250101'' ''1A2B3C4D'')
   \<and> ''X000'' \<noteq> ''P000'' \<and> take 1 ''X000'' \<noteq> ''D''
   \<and> cloud_verify_code example_env (disk_b (Content empty_cloud_db) True) code_x =
       (disk_b (Content empty_cloud_db) True, verify_failure 400 MsgTypeError)
   \<and> \<not> v_valid (snd (cloud_verify_code example_env
         (disk_b (Content empty_cloud_db) True) code_x))"
proof -
  have signed: "''14E8A1232DE3C3EC'' = cloud_generate_signature example_env
      (sign_data_of ''SIQIU'' ''X000'' ''20250101'' ''1A2B3C4D'')"
    by (simp add: signatures)
  have not_permanent: "''X000'' \<noteq> ''P000''" by simp
  have not_d: "take 1 ''X000'' \<noteq> ''D''" by simp
  then have not_trial:
    "\<not> (take 1 ''X000'' = ''D'' \<and> (\<exists>n. py_int example_env (drop 1 ''X000'') = Inr n))"
    by blast
  from unknown_edition_never_valid
    [OF ascii_codes(3) normal_codes(2) fields_code_x signed not_permanent not_trial,
      of "disk_b (Content empty_cloud_db) True"]
    ascii_codes(3) normal_codes(2) fields_code_x signed not_permanent not_d
    absent_in_empty [of True "hash_code example_env code_x"]
  show ?thesis by (simp add: verify_failure_def)
qed

text \<open>
  C10 as stated fails: the token \<open>D+7\<close> is neither \<open>P000\<close> nor a \<open>D\<close> followed by
  digits, and the correctly signed \<open>code_plus\<close> is verified as a valid 7-day code.
\<close>

theorem signed_plus_token_counterexample:
  "ascii code_plus
   \<and> upper (strip code_plus) = code_plus
   \<and> split_on CHR ''-'' code_plus =
       [''SIQIU'', ''D+7'', ''20250101'', ''1A2B3C4D'', ''F9C5A185B16C9D57'']
   \<and> ''F9C5A185B16C9D57'' = cloud_generate_signature example_env
         (sign_data_of ''SIQIU'' ''D+7'' ''20250101'' ''1A2B3C4D'')
   \<and> ''D+7'' \<noteq> ''P000''
   \<and> \<not> list_all isdigit (drop 1 ''D+7'')
   \<and> cloud_verify_code example_env (disk_b (Content empty_cloud_db) True) code_plus =
       (disk_b (Content empty_cloud_db) True,
        \<lparr>v_status = 200, v_valid = True, v_message = MsgKind 7, v_type = Some Trial,
         v_days = Some 7\<rparr>)"
proof -
  have signed: "''F9C5A185B16C9D57'' = cloud_generate_signature example_env
      (sign_data_of ''SIQIU'' ''D+7'' ''20250101'' ''1A2B3C4D'')"
    by (simp add: signatures)
  have plus: "\<not> list_all isdigit (drop 1 ''D+7'')"
    by (simp add: isdigit_def)
  have run: "cloud_verify_code example_env (disk_b (Content empty_cloud_db) True) code_plus =
       (disk_b (Content empty_cloud_db) True,
        \<lparr>v_status = 200, v_valid = True, v_message = MsgKind 7, v_type = Some Trial,
         v_days = Some 7\<rparr>)"
    by (simp add: cloud_verify_code_signed [OF normal_codes(3) fields_code_plus signed]
        absent_in_empty py_int_examples)
  from ascii_codes(4) normal_codes(3) fields_code_plus signed plus run show ?thesis by simp
qed

section \<open>Both servers\<close>

subsection \<open>Malformed codes\<close>

text \<open>
  C8. For every input whose normalised code (stripped, upper-cased) does not split on
  \<open>-\<close> into exactly five fields, both servers return valid=false with a format-error
  message, whatever the fields hold: "the activation code has a wrong format", or, for
  the empty code (one empty field), "the activation code must not be empty". The
  message is none of the signature-failure, unknown-code and expired messages. The
  reply is the same for every store, and the store is returned as it was: no lookup,
  no log entry, no write.
\<close>

theorem malformed_code_is_format_error:
  assumes norm: "upper (strip data_code) = c"
    and fields: "length (split_on CHR ''-'' c) \<noteq> 5"
  shows "verify_activation E now t_log s data_code =
           (s, \<lparr>status = (if c = [] then 400 else 200),
                body = failure (if c = [] then MsgEmpty else MsgFormat)\<rparr>)
       \<and> cloud_verify_code E f data_code =
           (f, verify_failure 400 (if c = [] then MsgEmpty else MsgFormat))
       \<and> (if c = [] then MsgEmpty else MsgFormat) \<notin>
           {MsgSignature, MsgSignatureInvalid, MsgNotExist, MsgExpired}"
proof -
  have route_a: "verify_activation E now t_log s data_code =
      (s, \<lparr>status = (if c = [] then 400 else 200),
           body = failure (if c = [] then MsgEmpty else MsgFormat)\<rparr>)"
    using fields by (simp add: verify_activation_def Let_def norm)
  have route_b: "cloud_verify_code E f data_code =
      (f, verify_failure 400 (if c = [] then MsgEmpty else MsgFormat))"
    using fields by (simp add: cloud_verify_code_def Let_def norm)
  from route_a route_b show ?thesis by simp
qed

text \<open>
  The hypotheses of C8 hold for an input of two fields and for a blank input.
\<close>

theorem malformed_code_is_format_error_witness:
  "upper (strip ''  siqiu-d007 '') = ''SIQIU-D007''
   \<and> length (split_on CHR ''-'' ''SIQIU-D007'') \<noteq> 5
   \<and> verify_activation example_env clock_a t0 (server_a 7 True) ''  siqiu-d007 '' =
       (server_a 7 True, \<lparr>status = 200, body = failure MsgFormat\<rparr>)
   \<and> cloud_verify_code example_env (disk_b (Content empty_cloud_db) True) ''  siqiu-d007 '' =
       (disk_b (Content empty_cloud_db) True, verify_failure 400 MsgFormat)
   \<and> upper (strip ''   '') = []
   \<and> length (split_on CHR ''-'' []) \<noteq> 5
   \<and> verify_activation example_env clock_a t0 (server_a 7 True) ''   '' =
       (server_a 7 True, \<lparr>status = 400, body = failure MsgEmpty\<rparr>)
   \<and> cloud_verify_code example_env (disk_b (Content empty_cloud_db) True) ''   '' =
       (disk_b (Content empty_cloud_db) True, verify_failure 400 MsgEmpty)"
proof -
  have two: "length (split_on CHR ''-'' ''SIQIU-D007'') \<noteq> 5"
    by (simp add: malformed_example)
  have one: "length (split_on CHR ''-'' []) \<noteq> 5"
    by simp
  from malformed_code_is_format_error [OF malformed_example(1) two,
      of example_env clock_a t0 "server_a 7 True" "disk_b (Content empty_cloud_db) True"]
    malformed_code_is_format_error [OF malformed_example(3) one,
      of example_env clock_a t0 "server_a 7 True" "disk_b (Content empty_cloud_db) True"]
    malformed_example(1) malformed_example(3) two one
  show ?thesis by simp
qed

subsection \<open>Failures of the file\<close>

lemma activate_code_success_persisted:
  assumes "success (snd (activate_code E now addr f data_code))"
  shows "writable f \<and>
    (case content (fst (activate_code E now addr f data_code)) of
       Content d \<Rightarrow>
         (case c_codes d (hash_code E (upper (strip data_code))) of
            Some info \<Rightarrow> used info \<and> used_by info = addr
          | None \<Rightarrow> False)
     | Unreadable \<Rightarrow> False
     | Missing \<Rightarrow> False)"
  using assms
  by (simp add: activate_code_def Let_def cloud_save_database_def activate_failure_def
      split: sum.splits option.splits if_splits)

lemma cloud_load_database_failed:
  assumes "content f = Missing \<or> content f = Unreadable"
  shows "cloud_load_database f =
    \<lparr>c_codes = Map.empty, c_created_at = None, version = ''cloud_v1.0''\<rparr>"
  using assms by (auto simp add: cloud_load_database_def)

lemma cloud_verify_code_reads_load:
  assumes "cloud_load_database f = cloud_load_database g"
  shows "snd (cloud_verify_code E f data_code) = snd (cloud_verify_code E g data_code)"
  using assms
  by (simp add: cloud_verify_code_def Let_def split: sum.splits)

lemma verify_code_ignores_disk:
  "snd (verify_code E now (s\<lparr>db_file := g\<rparr>) c) = snd (verify_code E now s c)
   \<and> db (fst (verify_code E now (s\<lparr>db_file := g\<rparr>) c)) = db (fst (verify_code E now s c))"
  by (simp add: verify_code_def Let_def save_database_def split: option.splits sum.splits)

lemma verify_activation_ignores_disk:
  "snd (verify_activation E now t_log (s\<lparr>db_file := g\<rparr>) data_code) =
     snd (verify_activation E now t_log s data_code)
   \<and> db (fst (verify_activation E now t_log (s\<lparr>db_file := g\<rparr>) data_code)) =
     db (fst (verify_activation E now t_log s data_code))"
proof -
  obtain s1 r1 where run1: "verify_code E now s (upper (strip data_code)) = (s1, r1)"
    by (cases "verify_code E now s (upper (strip data_code))")
  obtain s2 r2 where run2:
    "verify_code E now (s\<lparr>db_file := g\<rparr>) (upper (strip data_code)) = (s2, r2)"
    by (cases "verify_code E now (s\<lparr>db_file := g\<rparr>) (upper (strip data_code))")
  from verify_code_ignores_disk
      [where E = E and now = now and s = s and g = g and c = "upper (strip data_code)"]
    run1 run2
  have same: "r2 = r1" "db s2 = db s1" by simp_all
  show ?thesis
    by (simp add: verify_activation_def Let_def run1 run2 same add_log_db split: sum.splits)
qed

lemma first_verify_readonly:
  "verify_code example_env clock_a (server_a 7 False) code_a =
     ((server_a 7 False)\<lparr>db := \<lparr>codes = [hash_code example_env code_a \<mapsto>
          (record_a 7)\<lparr>activated := True, activated_at := Some t0\<rparr>], logs = []\<rparr>\<rparr>,
      Inr \<lparr>valid = True, message = MsgActivated ''trial'' 7, res_type = Some ''trial'',
           res_activated_at = Some t0, expire_at = Some (t0 + 250000 + 604800000000)\<rparr>)"
  by (simp add: verify_code_unconsumed [of _ _ _ "record_a 7"] server_a_def record_a_def
      save_database_def failed_write_def timedelta_days_def datetime_add_def datetime_max_def
      clock_a_def t0_def)

text \<open>
  A write that fails after \<^verbatim>\<open>open\<close> has truncated the file leaves a file that cannot
  be read: cloud_server.py then loads the empty database, and activation_server.py
  keeps its database in memory only. For example a first activation of \<open>code_b\<close> on a
  full disk answers 500 and loses the store.
\<close>

lemma failed_write_truncates:
  assumes "\<not> writable f" and "opens f"
  shows "cloud_save_database f d = (f\<lparr>content := Unreadable\<rparr>, Some OSError)"
    and "cloud_load_database (fst (cloud_save_database f d)) =
      \<lparr>c_codes = Map.empty, c_created_at = None, version = ''cloud_v1.0''\<rparr>"
  using assms
  by (simp_all add: cloud_save_database_def failed_write_def cloud_load_database_def)

lemma save_database_truncates:
  assumes "\<not> writable (db_file s)" and "opens (db_file s)"
  shows "content (db_file (save_database s)) = Unreadable \<and> db (save_database s) = db s"
  using assms by (simp add: save_database_def failed_write_def)

lemma truncated_activation_example:
  "activate_code example_env clock_b (Some ''10.0.0.1'')
     (full_disk_b (Content empty_cloud_db)) code_b =
   (full_disk_b Unreadable, activate_failure 500 (MsgMarkFailed OSError))"
proof -
  have number: "py_int example_env (drop 1 ''D007'') = Inr 7"
    by (simp add: py_int_examples)
  have edition: "''D007'' = ''P000'' \<and> Trial = Permanent \<and> (7::int) = 0
      \<or> ''D007'' \<noteq> ''P000'' \<and> take 1 ''D007'' = ''D''
        \<and> py_int example_env (drop 1 ''D007'') = Inr 7 \<and> Trial = Trial"
    using number by simp
  have absent: "c_codes (cloud_load_database (full_disk_b (Content empty_cloud_db)))
      (hash_code example_env code_b) = None"
    by (simp add: cloud_load_database_def full_disk_b_def empty_cloud_db_def)
  show ?thesis
    unfolding activate_code_absent [OF normal_codes(1) fields_code_b edition absent]
    by (simp add: full_disk_b_def failed_write_def)
qed

text \<open>
  C5 (as amended). What the two servers do when the file fails:
  \<^item> cloud_server.py, \<open>activate_code\<close> on a non-empty ASCII code when the write of the
    file fails: status 500, success=false;
  \<^item> \<open>activate_code\<close> on an ASCII code reports success only if the file was written
    and now holds the record of the code, marked used by the caller;
  \<^item> cloud_server.py, a file that is missing or cannot be read: \<open>cloud_verify_code\<close>
    answers as it does for an empty database;
  \<^item> activation_server.py: the reply of \<open>verify_activation\<close> and the database in memory
    do not depend on the file, so a failed write changes neither;
  \<^item> activation_server.py at start: a file that cannot be read gives the empty
    database.
\<close>

theorem persistence_failures_as_coded:
  "(ascii data_code \<and> \<not> writable f \<and> upper (strip data_code) \<noteq> [] \<longrightarrow>
       \<not> success (snd (activate_code E now addr f data_code))
     \<and> a_status (snd (activate_code E now addr f data_code)) = 500)
   \<and> (ascii data_code \<and> success (snd (activate_code E now addr f data_code)) \<longrightarrow>
       writable f
     \<and> (case content (fst (activate_code E now addr f data_code)) of
          Content d \<Rightarrow>
            (case c_codes d (hash_code E (upper (strip data_code))) of
               Some info \<Rightarrow> used info \<and> used_by info = addr
             | None \<Rightarrow> False)
        | Unreadable \<Rightarrow> False
        | Missing \<Rightarrow> False))
   \<and> (content f = Missing \<or> content f = Unreadable \<longrightarrow>
       snd (cloud_verify_code E f data_code) =
       snd (cloud_verify_code E
             (f\<lparr>content := Content \<lparr>c_codes = Map.empty, c_created_at = None,
                                     version = ''cloud_v1.0''\<rparr>\<rparr>) data_code))
   \<and> snd (verify_activation E clock t_log (s\<lparr>db_file := g\<rparr>) data_a) =
       snd (verify_activation E clock t_log s data_a)
   \<and> db (fst (verify_activation E clock t_log (s\<lparr>db_file := g\<rparr>) data_a)) =
       db (fst (verify_activation E clock t_log s data_a))
   \<and> (content g = Unreadable \<longrightarrow> db (load_database g) = \<lparr>codes = Map.empty, logs = []\<rparr>)"
proof -
  have write_failure: "\<not> success (snd (activate_code E now addr f data_code))
     \<and> a_status (snd (activate_code E now addr f data_code)) = 500"
    if "\<not> writable f" "upper (strip data_code) \<noteq> []"
    using that
    by (simp add: activate_code_def Let_def cloud_save_database_def activate_failure_def
        split: sum.splits option.splits)
  have read_failure: "snd (cloud_verify_code E f data_code) =
       snd (cloud_verify_code E
             (f\<lparr>content := Content \<lparr>c_codes = Map.empty, c_created_at = None,
                                     version = ''cloud_v1.0''\<rparr>\<rparr>) data_code)"
    if "content f = Missing \<or> content f = Unreadable"
  proof (rule cloud_verify_code_reads_load)
    show "cloud_load_database f =
        cloud_load_database (f\<lparr>content := Content \<lparr>c_codes = Map.empty,
          c_created_at = None, version = ''cloud_v1.0''\<rparr>\<rparr>)"
      by (simp add: cloud_load_database_failed [OF that]) (simp add: cloud_load_database_def)
  qed
  have start: "db (load_database g) = \<lparr>codes = Map.empty, logs = []\<rparr>"
    if "content g = Unreadable"
    using that by (simp add: load_database_def)
  from write_failure activate_code_success_persisted read_failure
    verify_activation_ignores_disk start
  show ?thesis by blast
qed

text \<open>
  Each hypothesis of C5 holds at an example: a file whose write fails, a successful
  activation, a file that cannot be read.
\<close>

theorem persistence_failures_as_coded_witness:
  "ascii code_b
   \<and> \<not> writable (disk_b (Content empty_cloud_db) False) \<and> upper (strip code_b) \<noteq> []
   \<and> \<not> success (snd (activate_code example_env clock_b (Some ''10.0.0.1'')
        (disk_b (Content empty_cloud_db) False) code_b))
   \<and> a_status (snd (activate_code example_env clock_b (Some ''10.0.0.1'')
        (disk_b (Content empty_cloud_db) False) code_b)) = 500
   \<and> success (snd (activate_code example_env clock_b (Some ''10.0.0.1'')
        (disk_b (Content empty_cloud_db) True) code_b))
   \<and> writable (disk_b (Content empty_cloud_db) True)
   \<and> content (fst (activate_code example_env clock_b (Some ''10.0.0.1'')
        (disk_b (Content empty_cloud_db) True) code_b)) =
       Content (empty_cloud_db\<lparr>c_codes :=
           [hash_code example_env code_b \<mapsto> record_b_used]\<rparr>)
   \<and> content (disk_b Unreadable True) = Unreadable
   \<and> snd (cloud_verify_code example_env (disk_b Unreadable True) code_b) =
       snd (cloud_verify_code example_env
             (disk_b (Content \<lparr>c_codes = Map.empty, c_created_at = None,
                               version = ''cloud_v1.0''\<rparr>) True) code_b)
   \<and> snd (verify_activation example_env clock_a t0 (server_a 7 False) code_a) =
       snd (verify_activation example_env clock_a t0 (server_a 7 True) code_a)
   \<and> db (load_database \<lparr>content = Unreadable, writable = True, opens = True\<rparr>) =
       \<lparr>codes = Map.empty, logs = []\<rparr>"
proof -
  have number: "py_int example_env (drop 1 ''D007'') = Inr 7"
    by (simp add: py_int_examples)
  have edition: "''D007'' = ''P000'' \<and> Trial = Permanent \<and> (7::int) = 0
      \<or> ''D007'' \<noteq> ''P000'' \<and> take 1 ''D007'' = ''D''
        \<and> py_int example_env (drop 1 ''D007'') = Inr 7 \<and> Trial = Trial"
    using number by simp
  note act = activate_code_absent [OF normal_codes(1) fields_code_b edition,
      where now = clock_b and addr = "Some ''10.0.0.1''"]
  have written: "activate_code example_env clock_b (Some ''10.0.0.1'')
        (disk_b (Content empty_cloud_db) True) code_b =
      (disk_b (Content (empty_cloud_db\<lparr>c_codes :=
           [hash_code example_env code_b \<mapsto> record_b_used]\<rparr>)) True,
       \<lparr>a_status = 200, success = True, a_message = MsgMarked\<rparr>)"
    unfolding act [OF absent_in_empty [of True]]
    by (simp add: disk_b_def cloud_load_database_def empty_cloud_db_def record_b_used_def
        clock_b_def)
  have locked: "ascii code_b \<and> \<not> writable (disk_b (Content empty_cloud_db) False)
      \<and> upper (strip code_b) \<noteq> []"
    by (simp add: disk_b_def normal_codes code_b_nonempty ascii_codes)
  have marked: "ascii code_b
      \<and> success (snd (activate_code example_env clock_b (Some ''10.0.0.1'')
        (disk_b (Content empty_cloud_db) True) code_b))"
    by (simp add: written ascii_codes)
  have lost: "content (disk_b Unreadable True) = Missing
      \<or> content (disk_b Unreadable True) = Unreadable"
    by (simp add: disk_b_def)
  have start: "content \<lparr>content = Unreadable, writable = True, opens = True\<rparr> = Unreadable"
    by simp
  have same_server:
    "(server_a 7 True)\<lparr>db_file := db_file (server_a 7 False)\<rparr> = server_a 7 False"
    by (simp add: server_a_def)
  have same_disk: "(disk_b Unreadable True)\<lparr>content := Content \<lparr>c_codes = Map.empty,
        c_created_at = None, version = ''cloud_v1.0''\<rparr>\<rparr> =
      disk_b (Content \<lparr>c_codes = Map.empty, c_created_at = None,
        version = ''cloud_v1.0''\<rparr>) True"
    by (simp add: disk_b_def)
  note part1 = persistence_failures_as_coded
    [where f = "disk_b (Content empty_cloud_db) False" and data_code = code_b
      and E = example_env and now = clock_b and addr = "Some ''10.0.0.1''",
      THEN conjunct1, rule_format, OF locked]
  note part2 = persistence_failures_as_coded
    [where f = "disk_b (Content empty_cloud_db) True" and data_code = code_b
      and E = example_env and now = clock_b and addr = "Some ''10.0.0.1''",
      THEN conjunct2, THEN conjunct1, rule_format, OF marked]
  note part3 = persistence_failures_as_coded
    [where f = "disk_b Unreadable True" and data_code = code_b and E = example_env,
      THEN conjunct2, THEN conjunct2, THEN conjunct1, rule_format, OF lost]
  note part4 = persistence_failures_as_coded
    [where E = example_env and clock = clock_a and t_log = t0 and s = "server_a 7 True"
      and g = "db_file (server_a 7 False)" and data_a = code_a,
      THEN conjunct2, THEN conjunct2, THEN conjunct2, THEN conjunct1]
  note part5 = persistence_failures_as_coded
    [where g = "\<lparr>content = Unreadable, writable = True, opens = True\<rparr>",
      THEN conjunct2, THEN conjunct2, THEN conjunct2, THEN conjunct2, THEN conjunct2,
      rule_format, OF start]
  have stored: "content (fst (activate_code example_env clock_b (Some ''10.0.0.1'')
        (disk_b (Content empty_cloud_db) True) code_b)) =
       Content (empty_cloud_db\<lparr>c_codes :=
           [hash_code example_env code_b \<mapsto> record_b_used]\<rparr>)"
    unfolding written by (simp add: disk_b_def)
  from locked part1 marked part2 stored lost part3 part4 part5
  show ?thesis
    by (simp add: same_server same_disk) (simp add: disk_b_def)
qed

text \<open>
  C5 as stated fails. With a file that cannot be read, cloud_server.py verifies
  \<open>code_b\<close> as a valid 7-day code with status 200. With a file that cannot be opened
  for writing, activation_server.py consumes \<open>code_a\<close> in memory and answers valid=true
  with status 200, while the file still holds the unconsumed record.
\<close>

theorem masked_persistence_failure_counterexample:
  "content (disk_b Unreadable True) = Unreadable
   \<and> cloud_verify_code example_env (disk_b Unreadable True) code_b =
       (disk_b Unreadable True,
        \<lparr>v_status = 200, v_valid = True, v_message = MsgKind 7, v_type = Some Trial,
         v_days = Some 7\<rparr>)
   \<and> \<not> writable (db_file (server_a 7 False))
   \<and> snd (verify_activation example_env clock_a t0 (server_a 7 False) code_a) =
       \<lparr>status = 200,
        body = \<lparr>valid = True, message = MsgActivated ''trial'' 7, res_type = Some ''trial'',
                res_activated_at = Some t0,
                expire_at = Some (t0 + 250000 + 604800000000)\<rparr>\<rparr>
   \<and> db_file (fst (verify_activation example_env clock_a t0 (server_a 7 False) code_a)) =
       db_file (server_a 7 False)"
proof -
  have signed_b: "''13F29B817F0696F7'' = cloud_generate_signature example_env
      (sign_data_of ''SIQIU'' ''D007'' ''20250101'' ''1A2B3C4D'')"
    by (simp add: signatures)
  have unreadable: "cloud_verify_code example_env (disk_b Unreadable True) code_b =
       (disk_b Unreadable True,
        \<lparr>v_status = 200, v_valid = True, v_message = MsgKind 7, v_type = Some Trial,
         v_days = Some 7\<rparr>)"
    by (simp add: cloud_verify_code_signed [OF normal_codes(1) fields_code_b signed_b]
        cloud_load_database_def disk_b_def py_int_examples)
  have signed_a: "''CD7E6ED6959EBC1A'' = generate_signature example_env
      (sign_data_of ''SIQIU'' ''TRIAL'' ''250101'' ''AB12'')"
    by (simp add: signatures)
  have route: "verify_activation example_env clock_a t0 (server_a 7 False) code_a =
      (add_log t0 ''verify'' (take 10 code_a @ ''...'') True (MsgActivated ''trial'' 7)
         ((server_a 7 False)\<lparr>db := \<lparr>codes = [hash_code example_env code_a \<mapsto>
            (record_a 7)\<lparr>activated := True, activated_at := Some t0\<rparr>], logs = []\<rparr>\<rparr>),
       \<lparr>status = 200,
        body = \<lparr>valid = True, message = MsgActivated ''trial'' 7, res_type = Some ''trial'',
                res_activated_at = Some t0,
                expire_at = Some (t0 + 250000 + 604800000000)\<rparr>\<rparr>)"
    by (simp add: verify_activation_signed [OF normal_codes(4) fields_code_a signed_a]
        first_verify_readonly)
  show ?thesis
    by (simp add: unreadable route) (simp add: add_log_def save_database_def
        failed_write_def server_a_def disk_b_def)
qed

end
